theory Spec2Isabelle
  imports Complex_Main "HOL-Library.Char_ord" "HOL-Library.List_Lexorder"
begin

section \<open>The balance ledger of the account service\<close>

text \<open>
  This theory embeds \<^verbatim>\<open>BalanceService\<close> (the account service's
  \<^verbatim>\<open>balanceService.ts\<close>): its three tables, the SQL statements it sends, and the
  public operations \<^verbatim>\<open>updateBalance\<close>, \<^verbatim>\<open>transferBalance\<close> and
  \<^verbatim>\<open>createDailySnapshot\<close> with their private helpers.

  Conventions of the embedding.
  \<^item> Money. All amounts are counted in units of \<open>10\<^sup>-\<^sup>8\<close>, the scale of the
    \<^verbatim>\<open>DECIMAL(20,8)\<close> columns: \<open>100.00000000\<close> is \<open>10000000000\<close>, and
    \<open>0.000000005\<close> is \<open>1 / 2\<close>. A \<open>numeric\<close> is the value of such a column, a whole
    number of units. A \<open>decimal\<close> is a \<^verbatim>\<open>Decimal\<close> value of the service, a rational
    number of units: a request carries the number its amount string denotes, however
    fine. \<^verbatim>\<open>plus\<close> and \<^verbatim>\<open>minus\<close> round their result to the 20 significant digits of
    \<^verbatim>\<open>Decimal\<close>'s default precision, and each column rounds the value assigned to it
    to the scale and refuses what does not fit its 12 integer digits. The amount of a
    request is a number: the strings \<^verbatim>\<open>'NaN'\<close> and \<^verbatim>\<open>'Infinity'\<close>, which
    \<^verbatim>\<open>Decimal\<close> also reads, have no counterpart here.
  \<^item> Identifiers. Currencies are strings. The columns \<^verbatim>\<open>account_id\<close> have the type
    \<^verbatim>\<open>UUID\<close>, whose values are compared whatever the spelling of the string sent:
    \<open>uuid_of\<close> below gives the value a string denotes. An id made by
    \<^verbatim>\<open>gen_random_uuid()\<close> is the next value of a counter kept with the tables.
  \<^item> Time. \<^verbatim>\<open>CURRENT_TIMESTAMP\<close> is the start time of the transaction, so every public
    operation takes it as the argument \<open>now\<close>.
  \<^item> Exceptions. A function that can throw returns \<open>error + 'a\<close>; \<open>Inl\<close> is the
    exception.
  \<^item> Storage faults. A connection is given a budget of queries it still serves; once the
    budget is used up every further \<^verbatim>\<open>client.query\<close> throws. The budget \<open>None\<close> is a
    connection that never fails.
  \<^item> Logging. The logger and the audit logger write to the log only; they are left out.
\<close>

subsection \<open>Rows and requests\<close>

type_synonym decimal = rat
type_synonym numeric = int
type_synonym timestamp = nat
type_synonym uuid = nat
type_synonym metadata = "(string \<times> string) list"

text \<open>\<^verbatim>\<open>interface Balance\<close>, which is also a row of the table \<^verbatim>\<open>balances\<close>
  (\<^verbatim>\<open>mapRowToBalance\<close> only renames the columns). \<open>accountId\<close> is the value of the
  \<^verbatim>\<open>UUID\<close> column, and the four amounts are the values of \<^verbatim>\<open>DECIMAL(20,8)\<close>
  columns.\<close>

record Balance =
  balanceId :: uuid
  accountId :: string
  currency :: string
  availableBalance :: numeric
  pendingBalance :: numeric
  totalBalance :: numeric
  reservedBalance :: numeric
  lastUpdated :: timestamp

text \<open>The operation types a \<^verbatim>\<open>BalanceUpdateRequest\<close> may carry, and those of the column
  \<^verbatim>\<open>operation_type\<close>, which adds \<^verbatim>\<open>'transfer'\<close>.\<close>

datatype update_type = Credit | Debit | Reserve | Release

datatype operation_type = Update update_type | Transfer

datatype operation_status = Pending | Completed | Failed | Cancelled

text \<open>\<^verbatim>\<open>interface BalanceOperation\<close>, a row of \<^verbatim>\<open>balance_operations\<close>.\<close>

record BalanceOperation =
  op_id :: uuid
  op_accountId :: string
  op_operationType :: operation_type
  op_amount :: numeric
  op_currency :: string
  op_reference :: string
  op_description :: string
  op_metadata :: metadata
  op_createdAt :: timestamp
  op_processedAt :: "timestamp option"
  op_status :: operation_status

record BalanceUpdateRequest =
  req_accountId :: string
  req_amount :: decimal
  req_currency :: string
  req_operationType :: update_type
  req_reference :: string
  req_description :: string
  req_metadata :: "metadata option"

record TransferRequest =
  tr_fromAccountId :: string
  tr_toAccountId :: string
  tr_amount :: decimal
  tr_currency :: string
  tr_reference :: string
  tr_description :: string
  tr_metadata :: "metadata option"

text \<open>A row of \<^verbatim>\<open>balance_snapshots\<close>; \<open>snap_date\<close> is the day number that the string
  \<^verbatim>\<open>YYYY-MM-DD\<close> names.\<close>

record Snapshot =
  snap_id :: uuid
  snap_accountId :: string
  snap_currency :: string
  snap_availableBalance :: numeric
  snap_pendingBalance :: numeric
  snap_totalBalance :: numeric
  snap_reservedBalance :: numeric
  snap_date :: int
  snap_createdAt :: timestamp

text \<open>The three tables of \<^verbatim>\<open>createTables\<close>, and the counter behind
  \<^verbatim>\<open>gen_random_uuid()\<close>.\<close>

record database =
  balances :: "Balance list"
  balance_operations :: "BalanceOperation list"
  balance_snapshots :: "Snapshot list"
  next_uuid :: uuid

definition empty_database :: database where
  "empty_database =
     \<lparr>balances = [], balance_operations = [], balance_snapshots = [], next_uuid = 0\<rparr>"

subsection \<open>Errors\<close>

text \<open>
  The service throws plain \<^verbatim>\<open>Error\<close> objects told apart by their message; each
  constructor is one message:
  \<^item> \<open>AmountCannotBeZero\<close>: \<^verbatim>\<open>'Amount cannot be zero'\<close>
  \<^item> \<open>TransferAmountMustBePositive\<close>: \<^verbatim>\<open>'Transfer amount must be positive'\<close>
  \<^item> \<open>InsufficientBalanceForTransfer\<close>: \<^verbatim>\<open>'Insufficient balance for transfer'\<close>
  \<^item> \<open>InsufficientAvailableBalance\<close>: \<^verbatim>\<open>'Insufficient available balance'\<close>
  \<^item> \<open>InsufficientReservedBalance\<close>: \<^verbatim>\<open>'Insufficient reserved balance'\<close>
  \<^item> \<open>InsufficientBalanceToReserve\<close>: \<^verbatim>\<open>'Insufficient balance to reserve'\<close>
  \<^item> \<open>UniqueViolation\<close>: an \<^verbatim>\<open>INSERT\<close> refused by a \<^verbatim>\<open>UNIQUE\<close> constraint
  \<^item> \<open>RowUndefined\<close>: the \<^verbatim>\<open>TypeError\<close> of \<^verbatim>\<open>mapRowToBalance(result.rows[0])\<close> when the
    statement returned no row
  \<^item> \<open>NumericFieldOverflow\<close>: a statement refused because a value does not fit its
    \<^verbatim>\<open>DECIMAL(20,8)\<close> column
  \<^item> \<open>StorageFault\<close>: \<^verbatim>\<open>client.query\<close> rejected by the storage layer.
\<close>

datatype error =
    AmountCannotBeZero
  | TransferAmountMustBePositive
  | InsufficientBalanceForTransfer
  | InsufficientAvailableBalance
  | InsufficientReservedBalance
  | InsufficientBalanceToReserve
  | UniqueViolation
  | RowUndefined
  | NumericFieldOverflow
  | StorageFault

text \<open>The error taxonomy of the specification, and the class each thrown error falls
  into. No error of the service falls into \<open>InvalidTransfer\<close>.\<close>

datatype error_kind =
  InvalidAmount | InsufficientFunds | InsufficientReserve | InvalidTransfer | PersistenceFailure

fun kind :: "error \<Rightarrow> error_kind" where
  "kind AmountCannotBeZero = InvalidAmount"
| "kind TransferAmountMustBePositive = InvalidAmount"
| "kind InsufficientBalanceForTransfer = InsufficientFunds"
| "kind InsufficientAvailableBalance = InsufficientFunds"
| "kind InsufficientBalanceToReserve = InsufficientFunds"
| "kind InsufficientReservedBalance = InsufficientReserve"
| "kind UniqueViolation = PersistenceFailure"
| "kind RowUndefined = PersistenceFailure"
| "kind NumericFieldOverflow = PersistenceFailure"
| "kind StorageFault = PersistenceFailure"

subsection \<open>Decimal arithmetic and column types\<close>

text \<open>Rounding to the nearest whole number, a tie going away from zero: the mode
  \<^verbatim>\<open>ROUND_HALF_UP\<close> that \<^verbatim>\<open>Decimal\<close> has by default, and the rounding of PostgreSQL's
  \<^verbatim>\<open>numeric\<close>.\<close>

definition round_half_away :: "rat \<Rightarrow> int" where
  "round_half_away x = (if 0 \<le> x then \<lfloor>x + 1 / 2\<rfloor> else - \<lfloor>- x + 1 / 2\<rfloor>)"

text \<open>The number of decimal digits of a positive whole number, the powers of ten, and
  the decimal exponent of a positive rational \<open>x\<close>: the \<open>e\<close> with
  \<open>10\<^sup>e \<le> x < 10\<^sup>e\<^sup>+\<^sup>1\<close>, which is the difference of the digit counts of numerator and
  denominator or one less.\<close>

function digits :: "int \<Rightarrow> int" where
  "digits n = (if n < 10 then 1 else 1 + digits (n div 10))"
  by pat_completeness auto
termination
  by (relation "measure nat") auto

declare digits.simps [simp del]

definition power10 :: "int \<Rightarrow> rat" where
  "power10 e = (if 0 \<le> e then 10 ^ nat e else 1 / 10 ^ nat (- e))"

definition exponent10 :: "rat \<Rightarrow> int" where
  "exponent10 x =
     (let e = digits (fst (quotient_of x)) - digits (snd (quotient_of x))
      in if power10 e \<le> x then e else e - 1)"

text \<open>\<^verbatim>\<open>Decimal\<close>'s \<^verbatim>\<open>plus\<close> and \<^verbatim>\<open>minus\<close> give the exact result rounded to
  \<^verbatim>\<open>precision\<close> significant digits, 20 by default, in the mode \<^verbatim>\<open>ROUND_HALF_UP\<close>.
  The constructor \<^verbatim>\<open>new Decimal(s)\<close>, the comparisons and \<^verbatim>\<open>toString\<close> are exact.\<close>

definition round_to_precision :: "decimal \<Rightarrow> decimal" where
  "round_to_precision x =
     (if x = 0 then 0
      else let quantum = power10 (exponent10 \<bar>x\<bar> - 19)
           in of_int (round_half_away (x / quantum)) * quantum)"

definition decimal_plus :: "decimal \<Rightarrow> decimal \<Rightarrow> decimal" where
  "decimal_plus x y = round_to_precision (x + y)"

definition decimal_minus :: "decimal \<Rightarrow> decimal \<Rightarrow> decimal" where
  "decimal_minus x y = round_to_precision (x - y)"

text \<open>A value assigned to a \<^verbatim>\<open>DECIMAL(20,8)\<close> column is rounded to 8 fractional digits,
  which is a whole number of units; a rounded value of \<open>10\<^sup>1\<^sup>2\<close> or more, which is
  \<open>10\<^sup>2\<^sup>0\<close> units, is refused.\<close>

definition numeric_20_8 :: "decimal \<Rightarrow> error + numeric" where
  "numeric_20_8 x =
     (if \<bar>round_half_away x\<bar> < 100000000000000000000 then Inr (round_half_away x)
      else Inl NumericFieldOverflow)"

text \<open>The value of a \<^verbatim>\<open>UUID\<close> column. PostgreSQL reads the 32 hexadecimal digits of
  the string, in upper or lower case, with or without hyphens and braces; two strings
  are the same id when they have the same digits. \<open>uuid_of s\<close> is the digits of \<open>s\<close>
  in upper case. Ids are taken to be well formed: the short names of the examples below
  stand for strings of 32 digits.\<close>

definition hex_upper :: "char \<Rightarrow> char" where
  "hex_upper c =
     (if c = CHR ''a'' then CHR ''A'' else if c = CHR ''b'' then CHR ''B''
      else if c = CHR ''c'' then CHR ''C'' else if c = CHR ''d'' then CHR ''D''
      else if c = CHR ''e'' then CHR ''E'' else if c = CHR ''f'' then CHR ''F'' else c)"

definition uuid_of :: "string \<Rightarrow> string" where
  "uuid_of s =
     map hex_upper (filter (\<lambda>c. c \<noteq> CHR ''-'' \<and> c \<noteq> CHR ''{'' \<and> c \<noteq> CHR ''}'') s)"

subsection \<open>The connection\<close>

text \<open>\<open>conn_db\<close> is the database as the open transaction sees it; \<open>conn_budget\<close> is
  the number of queries the connection still serves (\<open>None\<close>: all of them).\<close>

record client =
  conn_db :: database
  conn_budget :: "nat option"

type_synonym 'a statement = "database \<Rightarrow> error + ('a \<times> database)"
type_synonym 'a tx = "client \<Rightarrow> (error + 'a) \<times> client"

definition return :: "'a \<Rightarrow> 'a tx" where
  "return x c = (Inr x, c)"

definition throw :: "error \<Rightarrow> 'a tx" where
  "throw e c = (Inl e, c)"

text \<open>\<open>andThen m f\<close> is \<^verbatim>\<open>const x = await m; f(x)\<close>: an exception of \<open>m\<close> skips
  \<open>f\<close>.\<close>

definition andThen :: "'a tx \<Rightarrow> ('a \<Rightarrow> 'b tx) \<Rightarrow> 'b tx" where
  "andThen m f c = (case m c of (Inl e, c') \<Rightarrow> (Inl e, c') | (Inr x, c') \<Rightarrow> f x c')"

text \<open>\<^verbatim>\<open>await client.query(...)\<close>: a connection out of budget throws; otherwise the
  statement runs, and an error of the statement itself is thrown as well.\<close>

definition query :: "'a statement \<Rightarrow> 'a tx" where
  "query stmt c =
     (if conn_budget c = Some 0 then (Inl StorageFault, c)
      else
        let c' = c\<lparr>conn_budget := map_option (\<lambda>n. n - 1) (conn_budget c)\<rparr>
        in case stmt (conn_db c) of
             Inl e \<Rightarrow> (Inl e, c')
           | Inr (x, d) \<Rightarrow> (Inr x, c'\<lparr>conn_db := d\<rparr>))"

subsection \<open>The SQL statements\<close>

text \<open>\<^verbatim>\<open>BEGIN\<close>, \<^verbatim>\<open>COMMIT\<close> and \<^verbatim>\<open>ROLLBACK\<close> touch no row. What they mean is in
  \<open>transaction\<close> below: the caller's database becomes the connection's only when
  \<^verbatim>\<open>COMMIT\<close> has been served.\<close>

definition sql_BEGIN :: "unit statement" where
  "sql_BEGIN d = Inr ((), d)"

definition sql_COMMIT :: "unit statement" where
  "sql_COMMIT d = Inr ((), d)"

definition sql_ROLLBACK :: "unit statement" where
  "sql_ROLLBACK d = Inr ((), d)"

text \<open>\<^verbatim>\<open>WHERE account_id = $1 AND currency = $2\<close>: the id sent is compared as a
  \<^verbatim>\<open>UUID\<close>, the currency as a string.\<close>

definition balance_key :: "string \<Rightarrow> string \<Rightarrow> Balance \<Rightarrow> bool" where
  "balance_key acct cur b \<longleftrightarrow> accountId b = uuid_of acct \<and> currency b = cur"

text \<open>\<^verbatim>\<open>SELECT * FROM balances WHERE account_id = $1 AND currency = $2\<close>\<close>

definition select_balance :: "string \<Rightarrow> string \<Rightarrow> Balance list statement" where
  "select_balance acct cur d = Inr (filter (balance_key acct cur) (balances d), d)"

text \<open>\<^verbatim>\<open>SELECT * FROM balances WHERE account_id = $1 ORDER BY currency\<close>\<close>

definition select_balances_of :: "string \<Rightarrow> Balance list statement" where
  "select_balances_of acct d =
     Inr (sort_key currency (filter (\<lambda>b. accountId b = uuid_of acct) (balances d)), d)"

text \<open>\<^verbatim>\<open>INSERT INTO balances (account_id, currency) VALUES ($1, $2) RETURNING *\<close>: the
  other columns take their defaults, and \<^verbatim>\<open>UNIQUE(account_id, currency)\<close> refuses a
  second row for the pair.\<close>

definition insert_balance :: "timestamp \<Rightarrow> string \<Rightarrow> string \<Rightarrow> Balance list statement" where
  "insert_balance now acct cur d =
     (if \<exists>b \<in> set (balances d). balance_key acct cur b then Inl UniqueViolation
      else
        let row = \<lparr>balanceId = next_uuid d, accountId = uuid_of acct, currency = cur,
                   availableBalance = 0, pendingBalance = 0, totalBalance = 0,
                   reservedBalance = 0, lastUpdated = now\<rparr>
        in Inr ([row], d\<lparr>balances := balances d @ [row], next_uuid := Suc (next_uuid d)\<rparr>))"

text \<open>\<^verbatim>\<open>UPDATE balances SET available_balance = $1, reserved_balance = $2,
  total_balance = $3, last_updated = CURRENT_TIMESTAMP WHERE account_id = $4 AND
  currency = $5 RETURNING *\<close>: each of the three values sent is brought to the type of
  its column on its own.\<close>

definition set_balance :: "numeric \<Rightarrow> numeric \<Rightarrow> numeric \<Rightarrow> timestamp \<Rightarrow> Balance \<Rightarrow> Balance" where
  "set_balance available' reserved' total' now b =
     b\<lparr>availableBalance := available', reservedBalance := reserved',
       totalBalance := total',
       lastUpdated := now\<rparr>"

definition update_balance ::
  "decimal \<Rightarrow> decimal \<Rightarrow> decimal \<Rightarrow> timestamp \<Rightarrow> string \<Rightarrow> string \<Rightarrow> Balance list statement" where
  "update_balance available' reserved' total' now acct cur d =
     (case (numeric_20_8 available', numeric_20_8 reserved', numeric_20_8 total') of
        (Inr available_balance, Inr reserved_balance, Inr total_balance) \<Rightarrow>
          let rows = map (\<lambda>b. if balance_key acct cur b
                                then set_balance available_balance reserved_balance
                                       total_balance now b
                                else b)
                          (balances d)
          in Inr (filter (balance_key acct cur) rows, d\<lparr>balances := rows\<rparr>)
      | _ \<Rightarrow> Inl NumericFieldOverflow)"

text \<open>\<^verbatim>\<open>INSERT INTO balance_operations (account_id, operation_type, amount, currency,
  reference, description, metadata) VALUES (...) RETURNING id\<close>: \<^verbatim>\<open>status\<close> defaults to
  \<^verbatim>\<open>'pending'\<close>, \<^verbatim>\<open>created_at\<close> to the current time, \<^verbatim>\<open>processed_at\<close> to null.
  The amount sent is the request's amount string, which the column \<^verbatim>\<open>amount
  DECIMAL(20,8)\<close> rounds.\<close>

definition insert_operation ::
  "timestamp \<Rightarrow> string \<Rightarrow> operation_type \<Rightarrow> decimal \<Rightarrow> string \<Rightarrow> string \<Rightarrow> string \<Rightarrow> metadata
     \<Rightarrow> uuid statement" where
  "insert_operation now acct ty amount cur ref descr meta d =
     (case numeric_20_8 amount of
        Inl e \<Rightarrow> Inl e
      | Inr amount' \<Rightarrow>
          let row = \<lparr>op_id = next_uuid d, op_accountId = uuid_of acct, op_operationType = ty,
                     op_amount = amount', op_currency = cur, op_reference = ref,
                     op_description = descr, op_metadata = meta, op_createdAt = now,
                     op_processedAt = None, op_status = Pending\<rparr>
          in Inr (op_id row,
                  d\<lparr>balance_operations := balance_operations d @ [row],
                    next_uuid := Suc (next_uuid d)\<rparr>))"

text \<open>\<^verbatim>\<open>UPDATE balance_operations SET status = 'completed', processed_at =
  CURRENT_TIMESTAMP WHERE id = $1\<close>\<close>

definition update_operation_completed :: "timestamp \<Rightarrow> uuid \<Rightarrow> unit statement" where
  "update_operation_completed now operationId d =
     Inr ((), d\<lparr>balance_operations :=
                  map (\<lambda>r. if op_id r = operationId
                            then r\<lparr>op_status := Completed, op_processedAt := Some now\<rparr> else r)
                      (balance_operations d)\<rparr>)"

definition snapshot_key :: "string \<Rightarrow> string \<Rightarrow> int \<Rightarrow> Snapshot \<Rightarrow> bool" where
  "snapshot_key acct cur day s \<longleftrightarrow>
     snap_accountId s = uuid_of acct \<and> snap_currency s = cur \<and> snap_date s = day"

text \<open>\<^verbatim>\<open>INSERT INTO balance_snapshots (...) VALUES ($1, ..., $7) ON CONFLICT (account_id,
  currency, snapshot_date) DO UPDATE SET available_balance = EXCLUDED.available_balance,
  pending_balance = ..., total_balance = ..., reserved_balance = ..., created_at =
  CURRENT_TIMESTAMP\<close>. The four amounts sent are column values of a \<^verbatim>\<open>balances\<close> row,
  which the columns of the same type take as they are.\<close>

definition upsert_snapshot ::
  "timestamp \<Rightarrow> string \<Rightarrow> string \<Rightarrow> numeric \<Rightarrow> numeric \<Rightarrow> numeric \<Rightarrow> numeric \<Rightarrow> int
     \<Rightarrow> unit statement" where
  "upsert_snapshot now acct cur available' pending' total' reserved' day d =
     (if \<exists>s \<in> set (balance_snapshots d). snapshot_key acct cur day s
      then Inr ((), d\<lparr>balance_snapshots :=
                        map (\<lambda>s. if snapshot_key acct cur day s
                                  then s\<lparr>snap_availableBalance := available',
                                         snap_pendingBalance := pending',
                                         snap_totalBalance := total',
                                         snap_reservedBalance := reserved',
                                         snap_createdAt := now\<rparr>
                                  else s)
                            (balance_snapshots d)\<rparr>)
      else Inr ((), d\<lparr>balance_snapshots := balance_snapshots d @
                        [\<lparr>snap_id = next_uuid d, snap_accountId = uuid_of acct,
                          snap_currency = cur,
                          snap_availableBalance = available', snap_pendingBalance = pending',
                          snap_totalBalance = total', snap_reservedBalance = reserved',
                          snap_date = day, snap_createdAt = now\<rparr>],
                      next_uuid := Suc (next_uuid d)\<rparr>))"

subsection \<open>The private helpers of the service\<close>

text \<open>\<^verbatim>\<open>getOrCreateBalance\<close>: the row of the pair when there is one, and a freshly
  inserted zero row otherwise.\<close>

definition getOrCreateBalance :: "timestamp \<Rightarrow> string \<Rightarrow> string \<Rightarrow> Balance tx" where
  "getOrCreateBalance now acct cur =
     andThen (query (select_balance acct cur)) (\<lambda>selectResult.
       case selectResult of
         row # _ \<Rightarrow> return row
       | [] \<Rightarrow>
           andThen (query (insert_balance now acct cur)) (\<lambda>insertResult.
             case insertResult of
               row # _ \<Rightarrow> return row
             | [] \<Rightarrow> throw RowUndefined))"

text \<open>\<^verbatim>\<open>validateBalanceOperation\<close>: the \<^verbatim>\<open>switch\<close> has the cases
  \<^verbatim>\<open>'debit'\<close>, \<^verbatim>\<open>'release'\<close> and \<^verbatim>\<open>'reserve'\<close>; a credit passes unchecked.\<close>

definition validateBalanceOperation :: "Balance \<Rightarrow> update_type \<Rightarrow> decimal \<Rightarrow> unit tx" where
  "validateBalanceOperation balance operationType amount =
     (case operationType of
        Debit \<Rightarrow>
          if of_int (availableBalance balance) < amount then throw InsufficientAvailableBalance
          else return ()
      | Release \<Rightarrow>
          if of_int (reservedBalance balance) < amount then throw InsufficientReservedBalance
          else return ()
      | Reserve \<Rightarrow>
          if of_int (availableBalance balance) < amount then throw InsufficientBalanceToReserve
          else return ()
      | Credit \<Rightarrow> return ())"

text \<open>\<^verbatim>\<open>request.metadata || {}\<close> and \<^verbatim>\<open>{...request.metadata}\<close>: a missing object is the
  empty one.\<close>

definition metadata_of :: "metadata option \<Rightarrow> metadata" where
  "metadata_of m = (case m of None \<Rightarrow> [] | Some kvs \<Rightarrow> kvs)"

text \<open>Setting a property of an object: an existing key keeps its place and takes the new
  value, a new key goes last.\<close>

fun assign :: "string \<Rightarrow> string \<Rightarrow> metadata \<Rightarrow> metadata" where
  "assign k v [] = [(k, v)]"
| "assign k v ((k', v') # kvs) =
     (if k' = k then (k, v) # kvs else (k', v') # assign k v kvs)"

definition createBalanceOperation :: "timestamp \<Rightarrow> BalanceUpdateRequest \<Rightarrow> uuid tx" where
  "createBalanceOperation now request =
     query (insert_operation now
       (req_accountId request)
       (Update (req_operationType request))
       (req_amount request)
       (req_currency request)
       (req_reference request)
       (req_description request)
       (metadata_of (req_metadata request)))"

definition createTransferOperation :: "timestamp \<Rightarrow> TransferRequest \<Rightarrow> uuid tx" where
  "createTransferOperation now request =
     query (insert_operation now
       (tr_fromAccountId request)
       Transfer
       (tr_amount request)
       (tr_currency request)
       (tr_reference request)
       (tr_description request)
       (assign ''transferType'' ''outbound''
         (assign ''toAccountId'' (tr_toAccountId request)
           (metadata_of (tr_metadata request)))))"

text \<open>\<^verbatim>\<open>applyBalanceOperation\<close>: the new available and reserved amounts are computed from
  the \<^verbatim>\<open>Balance\<close> object handed in (not from the row as it is now), the total is their
  sum, and the three \<^verbatim>\<open>Decimal\<close> values are sent, as strings, to be written to every
  row of the object's account and currency.\<close>

definition applyBalanceOperation ::
  "timestamp \<Rightarrow> Balance \<Rightarrow> update_type \<Rightarrow> decimal \<Rightarrow> Balance tx" where
  "applyBalanceOperation now balance operationType amount =
     (let availableBalance' =
            (case operationType of
               Credit \<Rightarrow> decimal_plus (of_int (availableBalance balance)) amount
             | Debit \<Rightarrow> decimal_minus (of_int (availableBalance balance)) amount
             | Reserve \<Rightarrow> decimal_minus (of_int (availableBalance balance)) amount
             | Release \<Rightarrow> decimal_plus (of_int (availableBalance balance)) amount);
          reservedBalance' =
            (case operationType of
               Credit \<Rightarrow> of_int (reservedBalance balance)
             | Debit \<Rightarrow> of_int (reservedBalance balance)
             | Reserve \<Rightarrow> decimal_plus (of_int (reservedBalance balance)) amount
             | Release \<Rightarrow> decimal_minus (of_int (reservedBalance balance)) amount);
          totalBalance' = decimal_plus availableBalance' reservedBalance'
      in andThen
           (query (update_balance availableBalance' reservedBalance' totalBalance' now
                     (accountId balance) (currency balance)))
           (\<lambda>result. case result of row # _ \<Rightarrow> return row | [] \<Rightarrow> throw RowUndefined))"

definition completeBalanceOperation :: "timestamp \<Rightarrow> uuid \<Rightarrow> unit tx" where
  "completeBalanceOperation now operationId =
     query (update_operation_completed now operationId)"

subsection \<open>Transactions\<close>

text \<open>
  The three public operations share one shape:
  \<^verbatim>\<open>try { BEGIN; ...; COMMIT; return r } catch (error) { ROLLBACK; throw error }\<close>.
  \<open>transaction body budget d\<close> runs \<open>body\<close> (which starts with \<^verbatim>\<open>BEGIN\<close> and ends
  with \<^verbatim>\<open>COMMIT\<close>) on a connection with the given budget, opened on the database \<open>d\<close>.
  When the body returns, the caller is left with the connection's database. When it
  throws, the \<^verbatim>\<open>catch\<close> block sends \<^verbatim>\<open>ROLLBACK\<close>, whose own failure replaces the
  error, and the caller is left with \<open>d\<close>, the database at \<^verbatim>\<open>BEGIN\<close>.
\<close>

definition transaction :: "'a tx \<Rightarrow> nat option \<Rightarrow> database \<Rightarrow> (error + 'a) \<times> database" where
  "transaction body budget d =
     (case body \<lparr>conn_db = d, conn_budget = budget\<rparr> of
        (Inr r, c) \<Rightarrow> (Inr r, conn_db c)
      | (Inl e, c) \<Rightarrow>
          (case query sql_ROLLBACK c of
             (Inl e', _) \<Rightarrow> (Inl e', d)
           | (Inr _, _) \<Rightarrow> (Inl e, d)))"

subsection \<open>The public operations\<close>

text \<open>\<^verbatim>\<open>getBalance\<close> (a read outside any transaction).\<close>

definition getBalance :: "string \<Rightarrow> string \<Rightarrow> database \<Rightarrow> Balance option" where
  "getBalance acct cur d =
     (case filter (balance_key acct cur) (balances d) of [] \<Rightarrow> None | row # _ \<Rightarrow> Some row)"

text \<open>\<^verbatim>\<open>updateBalance\<close>. The amount check is \<^verbatim>\<open>amount.isZero()\<close>.\<close>

definition updateBalance ::
  "BalanceUpdateRequest \<Rightarrow> timestamp \<Rightarrow> nat option \<Rightarrow> database \<Rightarrow> (error + Balance) \<times> database" where
  "updateBalance request now =
     transaction
       (andThen (query sql_BEGIN) (\<lambda>_.
        let amount = req_amount request in
        if amount = 0 then throw AmountCannotBeZero
        else
        andThen (getOrCreateBalance now (req_accountId request) (req_currency request)) (\<lambda>balance.
        andThen (validateBalanceOperation balance (req_operationType request) amount) (\<lambda>_.
        andThen (createBalanceOperation now request) (\<lambda>operationId.
        andThen (applyBalanceOperation now balance (req_operationType request) amount) (\<lambda>balance'.
        andThen (completeBalanceOperation now operationId) (\<lambda>_.
        andThen (query sql_COMMIT) (\<lambda>_.
        return balance'))))))))"

text \<open>\<^verbatim>\<open>transferBalance\<close>. The amount check is \<^verbatim>\<open>amount.lte(0)\<close>; both balances are
  read before either is written; the result is the two updated balances and the id of
  the operation row.\<close>

definition transferBalance ::
  "TransferRequest \<Rightarrow> timestamp \<Rightarrow> nat option \<Rightarrow> database
     \<Rightarrow> (error + (Balance \<times> Balance \<times> uuid)) \<times> database" where
  "transferBalance request now =
     transaction
       (andThen (query sql_BEGIN) (\<lambda>_.
        let amount = tr_amount request in
        if amount \<le> 0 then throw TransferAmountMustBePositive
        else
        andThen (getOrCreateBalance now (tr_fromAccountId request) (tr_currency request)) (\<lambda>fromBalance.
        andThen (getOrCreateBalance now (tr_toAccountId request) (tr_currency request)) (\<lambda>toBalance.
        let availableAmount = of_int (availableBalance fromBalance) :: decimal in
        if availableAmount < amount then throw InsufficientBalanceForTransfer
        else
        andThen (createTransferOperation now request) (\<lambda>transferId.
        andThen (applyBalanceOperation now fromBalance Debit amount) (\<lambda>updatedFromBalance.
        andThen (applyBalanceOperation now toBalance Credit amount) (\<lambda>updatedToBalance.
        andThen (completeBalanceOperation now transferId) (\<lambda>_.
        andThen (query sql_COMMIT) (\<lambda>_.
        return (updatedFromBalance, updatedToBalance, transferId))))))))))"

text \<open>\<^verbatim>\<open>reserveBalance\<close> and \<^verbatim>\<open>releaseReservedBalance\<close> build the request and call
  \<^verbatim>\<open>updateBalance\<close>; an undefined \<^verbatim>\<open>reservedBy\<close> leaves the metadata object
  empty.\<close>

definition reserveBalance ::
  "string \<Rightarrow> decimal \<Rightarrow> string \<Rightarrow> string \<Rightarrow> string \<Rightarrow> string option \<Rightarrow> timestamp \<Rightarrow> nat option
     \<Rightarrow> database \<Rightarrow> (error + Balance) \<times> database" where
  "reserveBalance acct amount cur ref descr reservedBy =
     updateBalance
       \<lparr>req_accountId = acct, req_amount = amount, req_currency = cur,
        req_operationType = Reserve, req_reference = ref, req_description = descr,
        req_metadata =
          Some (case reservedBy of None \<Rightarrow> [] | Some u \<Rightarrow> [(''reservedBy'', u)])\<rparr>"

definition releaseReservedBalance ::
  "string \<Rightarrow> decimal \<Rightarrow> string \<Rightarrow> string \<Rightarrow> string \<Rightarrow> string option \<Rightarrow> timestamp \<Rightarrow> nat option
     \<Rightarrow> database \<Rightarrow> (error + Balance) \<times> database" where
  "releaseReservedBalance acct amount cur ref descr releasedBy =
     updateBalance
       \<lparr>req_accountId = acct, req_amount = amount, req_currency = cur,
        req_operationType = Release, req_reference = ref, req_description = descr,
        req_metadata =
          Some (case releasedBy of None \<Rightarrow> [] | Some u \<Rightarrow> [(''releasedBy'', u)])\<rparr>"

text \<open>\<^verbatim>\<open>createDailySnapshot\<close>: one upsert per balance of the account, in the order of
  \<^verbatim>\<open>getAllBalances\<close> (whose query is counted against the same budget). The date
  argument is a time in milliseconds since the epoch (an integer, negative before 1970);
  \<^verbatim>\<open>date.toISOString().split('T')[0]\<close> is its UTC day.\<close>

definition iso_day :: "int \<Rightarrow> int" where
  "iso_day date = date div 86400000"

fun snapshot_each :: "timestamp \<Rightarrow> string \<Rightarrow> int \<Rightarrow> Balance list \<Rightarrow> unit tx" where
  "snapshot_each now acct date [] = return ()"
| "snapshot_each now acct date (balance # rest) =
     andThen
       (query (upsert_snapshot now acct (currency balance) (availableBalance balance)
                 (pendingBalance balance) (totalBalance balance) (reservedBalance balance)
                 (iso_day date)))
       (\<lambda>_. snapshot_each now acct date rest)"

definition createDailySnapshot ::
  "string \<Rightarrow> int \<Rightarrow> timestamp \<Rightarrow> nat option \<Rightarrow> database \<Rightarrow> (error + unit) \<times> database" where
  "createDailySnapshot acct date now =
     transaction
       (andThen (query sql_BEGIN) (\<lambda>_.
        andThen (query (select_balances_of acct)) (\<lambda>balances'.
        andThen (snapshot_each now acct date balances') (\<lambda>_.
        query sql_COMMIT))))"

section \<open>What is proved about the ledger\<close>

subsection \<open>Reachable databases\<close>

text \<open>The databases the public operations can produce, starting from the empty tables
  that \<^verbatim>\<open>initialize\<close> creates. Every request, every transaction time and every fault
  budget is allowed; \<^verbatim>\<open>reserveBalance\<close> and \<^verbatim>\<open>releaseReservedBalance\<close> are calls of
  \<open>updateBalance\<close>.\<close>

inductive reachable :: "database \<Rightarrow> bool" where
  initial: "reachable empty_database"
| update: "reachable d \<Longrightarrow> reachable (snd (updateBalance request now budget d))"
| transfer: "reachable d \<Longrightarrow> reachable (snd (transferBalance trequest now budget d))"
| snapshot: "reachable d \<Longrightarrow> reachable (snd (createDailySnapshot acct date now budget d))"

text \<open>The available balance of an account and currency as the next operation will read
  it: that of the row, or zero, the amount of the row \<open>getOrCreateBalance\<close> would
  insert.\<close>

definition available_of :: "string \<Rightarrow> string \<Rightarrow> database \<Rightarrow> numeric" where
  "available_of acct cur d =
     (case getBalance acct cur d of None \<Rightarrow> 0 | Some b \<Rightarrow> availableBalance b)"

subsection \<open>Invariants\<close>





text \<open>\<open>total_ok\<close> is the accounting identity of the balance rows, and
  \<open>reachable_on_scale\<close> the databases reachable when the amount of every request is
  a whole number of units, that is, has at most 8 fractional digits.\<close>

definition total_ok :: "database \<Rightarrow> bool" where
  "total_ok d \<longleftrightarrow>
     (\<forall>b \<in> set (balances d). totalBalance b = availableBalance b + reservedBalance b)"

inductive reachable_on_scale :: "database \<Rightarrow> bool" where
  initial: "reachable_on_scale empty_database"
| update: "reachable_on_scale d \<Longrightarrow> req_amount request = of_int n \<Longrightarrow>
    reachable_on_scale (snd (updateBalance request now budget d))"
| transfer: "reachable_on_scale d \<Longrightarrow> tr_amount trequest = of_int n \<Longrightarrow>
    reachable_on_scale (snd (transferBalance trequest now budget d))"
| snapshot: "reachable_on_scale d \<Longrightarrow>
    reachable_on_scale (snd (createDailySnapshot acct date now budget d))"

text \<open>An operation row is completed when it has the status and a processing time. Inside
  a transaction all rows but the one just inserted are.\<close>

definition completed :: "BalanceOperation \<Rightarrow> bool" where
  "completed r \<longleftrightarrow> op_status r = Completed \<and> op_processedAt r \<noteq> None"

definition all_completed :: "database \<Rightarrow> bool" where
  "all_completed d \<longleftrightarrow> (\<forall>r \<in> set (balance_operations d). completed r)"

definition completed_except :: "uuid \<Rightarrow> database \<Rightarrow> bool" where
  "completed_except i d \<longleftrightarrow> (\<forall>r \<in> set (balance_operations d). completed r \<or> op_id r = i)"

text \<open>Non-negative balances, and the databases reachable when every \<open>updateBalance\<close>
  request carries a positive amount.\<close>

definition nonnegative :: "database \<Rightarrow> bool" where
  "nonnegative d \<longleftrightarrow>
     (\<forall>b \<in> set (balances d). 0 \<le> availableBalance b \<and> 0 \<le> reservedBalance b)"

inductive reachable_positive :: "database \<Rightarrow> bool" where
  initial: "reachable_positive empty_database"
| update: "reachable_positive d \<Longrightarrow> 0 < req_amount request \<Longrightarrow>
    reachable_positive (snd (updateBalance request now budget d))"
| transfer: "reachable_positive d \<Longrightarrow>
    reachable_positive (snd (transferBalance trequest now budget d))"
| snapshot: "reachable_positive d \<Longrightarrow>
    reachable_positive (snd (createDailySnapshot acct date now budget d))"

subsection \<open>Triples\<close>

text \<open>\<open>valid P m Q\<close>: started on a connection whose database satisfies \<open>P\<close>, a run of
  \<open>m\<close> that returns \<open>x\<close> leaves a database that satisfies \<open>Q x\<close>. \<open>steady m\<close>: a run
  of \<open>m\<close> that returns does the same on a connection that never fails.\<close>

definition valid :: "(database \<Rightarrow> bool) \<Rightarrow> 'a tx \<Rightarrow> ('a \<Rightarrow> database \<Rightarrow> bool) \<Rightarrow> bool" where
  "valid P m Q \<longleftrightarrow> (\<forall>c x c'. P (conn_db c) \<and> m c = (Inr x, c') \<longrightarrow> Q x (conn_db c'))"

definition steady :: "'a tx \<Rightarrow> bool" where
  "steady m \<longleftrightarrow>
     (\<forall>c x c'. m c = (Inr x, c') \<longrightarrow>
        m (c\<lparr>conn_budget := None\<rparr>) = (Inr x, c'\<lparr>conn_budget := None\<rparr>))"

text \<open>\<open>raises m E\<close>: a run of \<open>m\<close> that throws, throws one of the errors in \<open>E\<close>.\<close>

definition raises :: "'a tx \<Rightarrow> error set \<Rightarrow> bool" where
  "raises m E \<longleftrightarrow> (\<forall>c e c'. m c = (Inl e, c') \<longrightarrow> e \<in> E)"

abbreviation unbudgeted :: "database \<Rightarrow> client" where
  "unbudgeted d \<equiv> \<lparr>conn_db = d, conn_budget = None\<rparr>"

subsection \<open>The effect of each step on a connection that never fails\<close>

text \<open>The pending row that \<open>createTransferOperation\<close> inserts, the log after the
  insertion, and the log after \<open>completeBalanceOperation\<close>.\<close>

definition transfer_row :: "timestamp \<Rightarrow> TransferRequest \<Rightarrow> uuid \<Rightarrow> BalanceOperation" where
  "transfer_row now request i =
     \<lparr>op_id = i, op_accountId = uuid_of (tr_fromAccountId request),
      op_operationType = Transfer,
      op_amount = round_half_away (tr_amount request), op_currency = tr_currency request,
      op_reference = tr_reference request, op_description = tr_description request,
      op_metadata =
        assign ''transferType'' ''outbound''
          (assign ''toAccountId'' (tr_toAccountId request) (metadata_of (tr_metadata request))),
      op_createdAt = now, op_processedAt = None, op_status = Pending\<rparr>"

definition logged :: "BalanceOperation \<Rightarrow> database \<Rightarrow> database" where
  "logged r d =
     d\<lparr>balance_operations := balance_operations d @ [r], next_uuid := Suc (next_uuid d)\<rparr>"


definition finished :: "timestamp \<Rightarrow> uuid \<Rightarrow> database \<Rightarrow> database" where
  "finished now i d =
     d\<lparr>balance_operations :=
         map (\<lambda>r. if op_id r = i then r\<lparr>op_status := Completed, op_processedAt := Some now\<rparr>
                   else r)
           (balance_operations d)\<rparr>"

text \<open>What \<open>validateBalanceOperation\<close> lets pass.\<close>

definition admissible :: "Balance \<Rightarrow> update_type \<Rightarrow> decimal \<Rightarrow> bool" where
  "admissible b t amount =
     (case t of
        Credit \<Rightarrow> True
      | Debit \<Rightarrow> amount \<le> of_int (availableBalance b)
      | Reserve \<Rightarrow> amount \<le> of_int (availableBalance b)
      | Release \<Rightarrow> amount \<le> of_int (reservedBalance b))"



text \<open>Snapshots: the key of a row, the four amounts of a balance being recorded in a row,
  and the two branches of the upsert.\<close>

definition snapshot_id :: "Snapshot \<Rightarrow> string \<times> string \<times> int" where
  "snapshot_id s = (snap_accountId s, snap_currency s, snap_date s)"

definition recorded :: "Balance \<Rightarrow> Snapshot \<Rightarrow> bool" where
  "recorded b s \<longleftrightarrow>
     snap_availableBalance s = availableBalance b \<and>
     snap_pendingBalance s = pendingBalance b \<and>
     snap_totalBalance s = totalBalance b \<and>
     snap_reservedBalance s = reservedBalance b"

definition capture :: "timestamp \<Rightarrow> Balance \<Rightarrow> Snapshot \<Rightarrow> Snapshot" where
  "capture now b s =
     s\<lparr>snap_availableBalance := availableBalance b, snap_pendingBalance := pendingBalance b,
       snap_totalBalance := totalBalance b, snap_reservedBalance := reservedBalance b,
       snap_createdAt := now\<rparr>"

definition new_snapshot :: "timestamp \<Rightarrow> string \<Rightarrow> int \<Rightarrow> Balance \<Rightarrow> database \<Rightarrow> Snapshot" where
  "new_snapshot now acct day b d =
     \<lparr>snap_id = next_uuid d, snap_accountId = uuid_of acct, snap_currency = currency b,
      snap_availableBalance = availableBalance b, snap_pendingBalance = pendingBalance b,
      snap_totalBalance = totalBalance b, snap_reservedBalance = reservedBalance b,
      snap_date = day, snap_createdAt = now\<rparr>"

definition upserted :: "timestamp \<Rightarrow> string \<Rightarrow> int \<Rightarrow> Balance \<Rightarrow> database \<Rightarrow> database" where
  "upserted now acct day b d =
     (if \<exists>s \<in> set (balance_snapshots d). snapshot_key acct (currency b) day s
      then d\<lparr>balance_snapshots :=
               map (\<lambda>s. if snapshot_key acct (currency b) day s then capture now b s else s)
                 (balance_snapshots d)\<rparr>
      else d\<lparr>balance_snapshots := balance_snapshots d @ [new_snapshot now acct day b d],
             next_uuid := Suc (next_uuid d)\<rparr>)"

subsection \<open>Example data\<close>

text \<open>Requests in US dollars, and ledgers built from the empty database by the public
  operations. Amounts are in units of \<open>10\<^sup>-\<^sup>8\<close>: \<open>10000000000\<close> is 100.00000000 and
  \<open>1 / 2\<close> is 0.000000005.\<close>

definition usd_request :: "string \<Rightarrow> update_type \<Rightarrow> decimal \<Rightarrow> BalanceUpdateRequest" where
  "usd_request acct t amount =
     \<lparr>req_accountId = acct, req_amount = amount, req_currency = ''USD'',
      req_operationType = t, req_reference = ''ref-1'', req_description = ''test'',
      req_metadata = None\<rparr>"

definition usd_transfer :: "string \<Rightarrow> string \<Rightarrow> decimal \<Rightarrow> TransferRequest" where
  "usd_transfer src dst amount =
     \<lparr>tr_fromAccountId = src, tr_toAccountId = dst, tr_amount = amount, tr_currency = ''USD'',
      tr_reference = ''ref-2'', tr_description = ''test'', tr_metadata = None\<rparr>"

definition funded :: "string \<Rightarrow> decimal \<Rightarrow> database \<Rightarrow> database" where
  "funded acct amount d = snd (updateBalance (usd_request acct Credit amount) 1 None d)"


definition two_accounts :: database where
  "two_accounts = funded ''B'' 1000000000 (funded ''A'' 5000000000 empty_database)"

definition settled_ledger :: database where
  "settled_ledger =
     snd (transferBalance (usd_transfer ''A'' ''B'' 2000000000) 2 None two_accounts)"

text \<open>Two spellings of one account id.\<close>

definition account_hyphenated :: string where
  "account_hyphenated = ''a0eebc99-9c0b-4ef8-bb6d-6bb9bd380a11''"

definition account_upper_case :: string where
  "account_upper_case = ''A0EEBC999C0B4EF8BB6D6BB9BD380A11''"

text \<open>A ledger after a reserve of 0.000000005 on 100.00000000, and one whose reserved
  balance has been driven to -5.00000000 by a reserve of that amount.\<close>

definition half_unit_reserved :: database where
  "half_unit_reserved =
     snd (reserveBalance ''A'' (1 / 2) ''USD'' ''ref-3'' ''hold'' None 2 None
            (funded ''A'' 10000000000 empty_database))"

definition overdrawn_reserve :: database where
  "overdrawn_reserve =
     snd (updateBalance (usd_request ''A'' Reserve (- 500000000)) 1 None empty_database)"

section \<open>Proofs\<close>

subsection \<open>Rules for \<open>valid\<close>\<close>

lemma valid_return: "(\<And>d. P d \<Longrightarrow> Q x d) \<Longrightarrow> valid P (return x) Q"
  by (simp add: valid_def return_def)

lemma valid_throw: "valid P (throw e) Q"
  by (simp add: valid_def throw_def)

lemma valid_andThen:
  assumes "valid P m R" and "\<And>x. valid (R x) (f x) Q"
  shows "valid P (andThen m f) Q"
  using assms unfolding valid_def andThen_def
  by (fastforce split: prod.splits sum.splits)

lemma valid_query:
  assumes "\<And>d x d'. P d \<Longrightarrow> stmt d = Inr (x, d') \<Longrightarrow> Q x d'"
  shows "valid P (query stmt) Q"
  using assms unfolding valid_def query_def
  by (auto simp: Let_def split: if_splits sum.splits)

lemma keeps_andThen:
  assumes "valid I m (\<lambda>_. I)" and "\<And>x. valid I (f x) (\<lambda>_. I)"
  shows "valid I (andThen m f) (\<lambda>_. I)"
  using assms by (rule valid_andThen)

lemma keeps_return: "valid I (return x) (\<lambda>_. I)"
  by (rule valid_return)

lemma keeps_control:
  "valid I (query sql_BEGIN) (\<lambda>_. I)" "valid I (query sql_COMMIT) (\<lambda>_. I)"
  by (rule valid_query, simp add: sql_BEGIN_def sql_COMMIT_def)+

lemma keeps_select:
  "valid I (query (select_balance acct cur)) (\<lambda>_. I)"
  "valid I (query (select_balances_of acct)) (\<lambda>_. I)"
  by (rule valid_query, auto simp add: select_balance_def select_balances_of_def)+

lemma keeps_validate: "valid I (validateBalanceOperation b t amount) (\<lambda>_. I)"
  unfolding validateBalanceOperation_def
  by (cases t) (auto intro: valid_throw valid_return)

subsection \<open>Every statement keeps the database sound\<close>

lemma hex_upper_idem [simp]: "hex_upper (hex_upper c) = hex_upper c"
  by (simp add: hex_upper_def)

lemma hex_upper_punctuation [simp]:
  "hex_upper c = CHR ''-'' \<longleftrightarrow> c = CHR ''-''"
  "hex_upper c = CHR ''{'' \<longleftrightarrow> c = CHR ''{''"
  "hex_upper c = CHR ''}'' \<longleftrightarrow> c = CHR ''}''"
  by (simp_all add: hex_upper_def)

lemma uuid_of_idem [simp]: "uuid_of (uuid_of s) = uuid_of s"
  by (induction s) (simp_all add: uuid_of_def)

lemma round_half_away_of_int [simp]: "round_half_away (of_int n) = n"
proof -
  have "\<lfloor>of_int n + (1 / 2 :: rat)\<rfloor> = n" and "\<lfloor>- of_int n + (1 / 2 :: rat)\<rfloor> = - n"
    by linarith+
  then show ?thesis
    by (simp add: round_half_away_def)
qed

lemma numeric_20_8_value: "numeric_20_8 x = Inr n \<Longrightarrow> n = round_half_away x"
  by (simp add: numeric_20_8_def split: if_splits)

lemma update_balance_cases:
  assumes "update_balance a r t now acct cur d = Inr (x, d')"
  obtains a' r' t' where
    "numeric_20_8 a = Inr a'" and "numeric_20_8 r = Inr r'" and "numeric_20_8 t = Inr t'"
    and "d' = d\<lparr>balances :=
           map (\<lambda>b. if balance_key acct cur b then set_balance a' r' t' now b else b)
             (balances d)\<rparr>"
    and "x = filter (balance_key acct cur) (balances d')"
  using assms unfolding update_balance_def by (auto simp: Let_def split: sum.splits)

lemma insert_operation_cases:
  assumes "insert_operation now acct ty amount cur ref descr meta d = Inr (i, d')"
  shows "i = next_uuid d"
    and "d' = d\<lparr>balance_operations := balance_operations d @
           [\<lparr>op_id = next_uuid d, op_accountId = uuid_of acct, op_operationType = ty,
             op_amount = round_half_away amount, op_currency = cur, op_reference = ref,
             op_description = descr, op_metadata = meta, op_createdAt = now,
             op_processedAt = None, op_status = Pending\<rparr>],
           next_uuid := Suc (next_uuid d)\<rparr>"
  using assms unfolding insert_operation_def
  by (auto simp: Let_def dest: numeric_20_8_value split: sum.splits)

lemma balance_key_set_balance [simp]:
  "balance_key acct cur (set_balance a r t now b) = balance_key acct cur b"
  by (simp add: balance_key_def set_balance_def)







subsection \<open>What a transaction leaves behind\<close>

text \<open>Either the body reached the end and the caller has the connection's database, or
  the caller has the database it started with.\<close>

lemma transaction_cases:
  "snd (transaction body budget d) = d \<or>
   (\<exists>r c. body \<lparr>conn_db = d, conn_budget = budget\<rparr> = (Inr r, c) \<and>
      transaction body budget d = (Inr r, conn_db c))"
  unfolding transaction_def
  by (auto split: prod.splits sum.splits)

lemma transaction_invariant:
  assumes "valid I body (\<lambda>_. I)" and "I d"
  shows "I (snd (transaction body budget d))"
  using transaction_cases [of body budget d] assms
  unfolding valid_def by force

lemma transaction_failure:
  "fst (transaction body budget d) = Inl e \<Longrightarrow> snd (transaction body budget d) = d"
  unfolding transaction_def
  by (auto split: prod.splits sum.splits)

subsection \<open>Reachable databases are sound\<close>













subsection \<open>Reachable databases hold completed operations only\<close>

text \<open>Inside a transaction one row is pending: the one just inserted. The balance
  statements do not touch the log, and \<open>completeBalanceOperation\<close> completes that
  row before \<^verbatim>\<open>COMMIT\<close>.\<close>

lemma pending_insert_operation:
  "all_completed d \<Longrightarrow> insert_operation now acct ty amount cur ref descr meta d = Inr (i, d')
     \<Longrightarrow> completed_except i d'"
  by (frule insert_operation_cases(1), drule insert_operation_cases(2))
    (auto simp: all_completed_def completed_except_def)

lemma completed_update_operation_completed:
  "completed_except i d \<Longrightarrow> update_operation_completed now i d = Inr (x, d')
     \<Longrightarrow> all_completed d'"
  unfolding update_operation_completed_def all_completed_def completed_except_def completed_def
  by auto

lemma operations_insert_balance:
  "insert_balance now acct cur d = Inr (x, d') \<Longrightarrow> P (balance_operations d)
     \<Longrightarrow> P (balance_operations d')"
  unfolding insert_balance_def by (auto simp: Let_def split: if_splits)

lemma operations_update_balance:
  "update_balance a r t now acct cur d = Inr (x, d') \<Longrightarrow> P (balance_operations d)
     \<Longrightarrow> P (balance_operations d')"
  by (erule update_balance_cases) simp

lemma operations_upsert_snapshot:
  "upsert_snapshot now acct cur a p t r day d = Inr (x, d') \<Longrightarrow> P (balance_operations d)
     \<Longrightarrow> P (balance_operations d')"
  unfolding upsert_snapshot_def by (auto split: if_splits)

lemma operations_getOrCreateBalance:
  "valid (\<lambda>d. P (balance_operations d)) (getOrCreateBalance now acct cur)
     (\<lambda>_ d. P (balance_operations d))"
  unfolding getOrCreateBalance_def
  by (auto intro!: keeps_andThen keeps_select valid_query valid_return valid_throw
      elim: operations_insert_balance split: list.splits)

lemma operations_applyBalanceOperation:
  "valid (\<lambda>d. P (balance_operations d)) (applyBalanceOperation now b t amount)
     (\<lambda>_ d. P (balance_operations d))"
  unfolding applyBalanceOperation_def Let_def
  by (auto intro!: keeps_andThen valid_query valid_return valid_throw
      elim: operations_update_balance split: list.splits)

lemma operations_snapshot_each:
  "valid (\<lambda>d. P (balance_operations d)) (snapshot_each now acct date bs)
     (\<lambda>_ d. P (balance_operations d))"
  by (induction bs)
    (auto intro!: keeps_andThen valid_query valid_return elim: operations_upsert_snapshot)

lemma all_completed_operations:
  "all_completed d = (\<forall>r \<in> set (balance_operations d). completed r)"
  "completed_except i d = (\<forall>r \<in> set (balance_operations d). completed r \<or> op_id r = i)"
  by (simp_all add: all_completed_def completed_except_def)

lemma completed_getOrCreateBalance:
  "valid all_completed (getOrCreateBalance now acct cur) (\<lambda>_. all_completed)"
  unfolding all_completed_operations by (rule operations_getOrCreateBalance)

lemma pending_applyBalanceOperation:
  "valid (completed_except i) (applyBalanceOperation now b t amount) (\<lambda>_. completed_except i)"
  unfolding all_completed_operations by (rule operations_applyBalanceOperation)

lemma completed_snapshot_each:
  "valid all_completed (snapshot_each now acct date bs) (\<lambda>_. all_completed)"
  unfolding all_completed_operations by (rule operations_snapshot_each)

lemma pending_createBalanceOperation:
  "valid all_completed (createBalanceOperation now request) completed_except"
  unfolding createBalanceOperation_def
  by (auto intro!: valid_query elim: pending_insert_operation)

lemma pending_createTransferOperation:
  "valid all_completed (createTransferOperation now request) completed_except"
  unfolding createTransferOperation_def
  by (auto intro!: valid_query elim: pending_insert_operation)

lemma completed_completeBalanceOperation:
  "valid (completed_except i) (completeBalanceOperation now i) (\<lambda>_. all_completed)"
  unfolding completeBalanceOperation_def
  by (auto intro!: valid_query elim: completed_update_operation_completed)

lemma valid_if:
  "(b \<Longrightarrow> valid P m Q) \<Longrightarrow> (\<not> b \<Longrightarrow> valid P n Q) \<Longrightarrow> valid P (if b then m else n) Q"
  by simp

lemma completed_updateBalance:
  "all_completed d \<Longrightarrow> all_completed (snd (updateBalance request now budget d))"
  unfolding updateBalance_def Let_def
proof (erule transaction_invariant [rotated])
  let ?t = "req_operationType request" and ?amount = "req_amount request"
  have finish: "valid (completed_except i)
      (andThen (applyBalanceOperation now b ?t ?amount) (\<lambda>balance'.
       andThen (completeBalanceOperation now i) (\<lambda>_.
       andThen (query sql_COMMIT) (\<lambda>_. return balance'))))
      (\<lambda>_. all_completed)" for i b
    by (intro valid_andThen [OF pending_applyBalanceOperation]
        valid_andThen [OF completed_completeBalanceOperation] keeps_andThen keeps_control
        keeps_return)
  show "valid all_completed
     (andThen (query sql_BEGIN) (\<lambda>_.
        if ?amount = 0 then throw AmountCannotBeZero
        else
        andThen (getOrCreateBalance now (req_accountId request) (req_currency request)) (\<lambda>balance.
        andThen (validateBalanceOperation balance ?t ?amount) (\<lambda>_.
        andThen (createBalanceOperation now request) (\<lambda>operationId.
        andThen (applyBalanceOperation now balance ?t ?amount) (\<lambda>balance'.
        andThen (completeBalanceOperation now operationId) (\<lambda>_.
        andThen (query sql_COMMIT) (\<lambda>_.
        return balance'))))))))
     (\<lambda>_. all_completed)"
    by (intro keeps_andThen keeps_control valid_if valid_throw completed_getOrCreateBalance
        keeps_validate valid_andThen [OF pending_createBalanceOperation] finish)
qed

lemma completed_transferBalance:
  "all_completed d \<Longrightarrow> all_completed (snd (transferBalance request now budget d))"
  unfolding transferBalance_def Let_def
proof (erule transaction_invariant [rotated])
  let ?amount = "tr_amount request"
  have finish: "valid (completed_except i)
      (andThen (applyBalanceOperation now fb Debit ?amount) (\<lambda>updatedFromBalance.
       andThen (applyBalanceOperation now tb Credit ?amount) (\<lambda>updatedToBalance.
       andThen (completeBalanceOperation now i) (\<lambda>_.
       andThen (query sql_COMMIT) (\<lambda>_.
       return (updatedFromBalance, updatedToBalance, i))))))
      (\<lambda>_. all_completed)" for i fb tb
    by (intro valid_andThen [OF pending_applyBalanceOperation]
        valid_andThen [OF completed_completeBalanceOperation] keeps_andThen keeps_control
        keeps_return)
  show "valid all_completed
     (andThen (query sql_BEGIN) (\<lambda>_.
        if ?amount \<le> 0 then throw TransferAmountMustBePositive
        else
        andThen (getOrCreateBalance now (tr_fromAccountId request) (tr_currency request)) (\<lambda>fromBalance.
        andThen (getOrCreateBalance now (tr_toAccountId request) (tr_currency request)) (\<lambda>toBalance.
        if of_int (availableBalance fromBalance) < ?amount then throw InsufficientBalanceForTransfer
        else
        andThen (createTransferOperation now request) (\<lambda>transferId.
        andThen (applyBalanceOperation now fromBalance Debit ?amount) (\<lambda>updatedFromBalance.
        andThen (applyBalanceOperation now toBalance Credit ?amount) (\<lambda>updatedToBalance.
        andThen (completeBalanceOperation now transferId) (\<lambda>_.
        andThen (query sql_COMMIT) (\<lambda>_.
        return (updatedFromBalance, updatedToBalance, transferId))))))))))
     (\<lambda>_. all_completed)"
    by (intro keeps_andThen keeps_control valid_if valid_throw completed_getOrCreateBalance
        valid_andThen [OF pending_createTransferOperation] finish)
qed

lemma completed_createDailySnapshot:
  "all_completed d \<Longrightarrow> all_completed (snd (createDailySnapshot acct date now budget d))"
  unfolding createDailySnapshot_def
  by (erule transaction_invariant [rotated])
    (intro keeps_andThen keeps_control keeps_select completed_snapshot_each)

lemma completed_empty: "all_completed empty_database"
  by (simp add: all_completed_def empty_database_def)

lemma reachable_completed: "reachable d \<Longrightarrow> all_completed d"
proof (induction rule: reachable.induct)
  case initial
  show ?case by (rule completed_empty)
next
  case (update d request now budget)
  from update.IH show ?case by (rule completed_updateBalance)
next
  case (transfer d trequest now budget)
  from transfer.IH show ?case by (rule completed_transferBalance)
next
  case (snapshot d acct date now budget)
  from snapshot.IH show ?case by (rule completed_createDailySnapshot)
qed

subsection \<open>Faults only abort\<close>

text \<open>A run that succeeds on some budget succeeds with the same result on a connection
  that never fails, so every successful run can be computed there.\<close>

lemma query_unbudgeted:
  "query stmt \<lparr>conn_db = d, conn_budget = None\<rparr> =
     (case stmt d of
        Inl e \<Rightarrow> (Inl e, \<lparr>conn_db = d, conn_budget = None\<rparr>)
      | Inr (x, d') \<Rightarrow> (Inr x, \<lparr>conn_db = d', conn_budget = None\<rparr>))"
  by (simp add: query_def split: sum.splits)

lemma steady_return: "steady (return x)"
  by (simp add: steady_def return_def)

lemma steady_throw: "steady (throw e)"
  by (simp add: steady_def throw_def)

lemma steady_query: "steady (query stmt)"
  by (auto simp: steady_def query_def Let_def split: if_splits sum.splits)

lemma steady_andThen:
  assumes "steady m" and "\<And>x. steady (f x)"
  shows "steady (andThen m f)"
  unfolding steady_def
proof (intro allI impI)
  fix c y c''
  assume run: "andThen m f c = (Inr y, c'')"
  then obtain x c' where m: "m c = (Inr x, c')" and f: "f x c' = (Inr y, c'')"
    by (auto simp: andThen_def split: prod.splits sum.splits)
  from m assms(1) have "m (c\<lparr>conn_budget := None\<rparr>) = (Inr x, c'\<lparr>conn_budget := None\<rparr>)"
    by (simp add: steady_def)
  moreover from f assms(2) [of x]
  have "f x (c'\<lparr>conn_budget := None\<rparr>) = (Inr y, c''\<lparr>conn_budget := None\<rparr>)"
    by (simp add: steady_def)
  ultimately show "andThen m f (c\<lparr>conn_budget := None\<rparr>) = (Inr y, c''\<lparr>conn_budget := None\<rparr>)"
    by (simp add: andThen_def)
qed

lemma steady_if: "(b \<Longrightarrow> steady m) \<Longrightarrow> (\<not> b \<Longrightarrow> steady n) \<Longrightarrow> steady (if b then m else n)"
  by simp

lemma steady_getOrCreateBalance: "steady (getOrCreateBalance now acct cur)"
  unfolding getOrCreateBalance_def
  by (auto intro!: steady_andThen steady_query steady_return steady_throw split: list.splits)

lemma steady_validateBalanceOperation: "steady (validateBalanceOperation b t amount)"
  unfolding validateBalanceOperation_def
  by (cases t) (auto intro: steady_return steady_throw)

lemma steady_applyBalanceOperation: "steady (applyBalanceOperation now b t amount)"
  unfolding applyBalanceOperation_def Let_def
  by (auto intro!: steady_andThen steady_query steady_return steady_throw split: list.splits)

lemma steady_snapshot_each: "steady (snapshot_each now acct date bs)"
  by (induction bs) (auto intro!: steady_andThen steady_query steady_return)

lemmas steady_steps =
  steady_andThen steady_if steady_query steady_return steady_throw steady_getOrCreateBalance
  steady_validateBalanceOperation steady_applyBalanceOperation steady_snapshot_each

lemma transaction_unbudgeted:
  assumes "steady body" and "transaction body budget d = (Inr r, d')"
  shows "transaction body None d = (Inr r, d')"
proof -
  from assms(2) obtain c where run: "body \<lparr>conn_db = d, conn_budget = budget\<rparr> = (Inr r, c)"
    and d': "d' = conn_db c"
    by (auto simp: transaction_def split: prod.splits sum.splits)
  from run assms(1)
  have "body (\<lparr>conn_db = d, conn_budget = budget\<rparr>\<lparr>conn_budget := None\<rparr>) =
      (Inr r, c\<lparr>conn_budget := None\<rparr>)"
    unfolding steady_def by blast
  then show ?thesis by (simp add: transaction_def d')
qed

lemma updateBalance_unbudgeted:
  "updateBalance request now budget d = (Inr b, d') \<Longrightarrow>
   updateBalance request now None d = (Inr b, d')"
  unfolding updateBalance_def Let_def createBalanceOperation_def completeBalanceOperation_def
  by (erule transaction_unbudgeted [rotated]) (intro steady_steps)

lemma transferBalance_unbudgeted:
  "transferBalance request now budget d = (Inr r, d') \<Longrightarrow>
   transferBalance request now None d = (Inr r, d')"
  unfolding transferBalance_def Let_def createTransferOperation_def completeBalanceOperation_def
  by (erule transaction_unbudgeted [rotated]) (intro steady_steps)

subsection \<open>The statements on a connection that never fails\<close>

lemma control_unbudgeted [simp]:
  "query sql_BEGIN (unbudgeted d) = (Inr (), unbudgeted d)"
  "query sql_COMMIT (unbudgeted d) = (Inr (), unbudgeted d)"
  "query sql_ROLLBACK (unbudgeted d) = (Inr (), unbudgeted d)"
  by (simp_all add: query_unbudgeted sql_BEGIN_def sql_COMMIT_def sql_ROLLBACK_def)

lemma query_result:
  "query stmt c = (Inr x, c') \<Longrightarrow> stmt (conn_db c) = Inr (x, conn_db c')"
  by (auto simp: query_def Let_def split: if_splits sum.splits)

subsection \<open>The operation log of a transfer\<close>

lemma transaction_valid:
  assumes "valid P body Q" and "P d" and "transaction body budget d = (Inr r, d')"
  shows "Q r d'"
proof -
  from assms(3) obtain c where "body \<lparr>conn_db = d, conn_budget = budget\<rparr> = (Inr r, c)"
    and "d' = conn_db c"
    by (auto simp: transaction_def split: prod.splits sum.splits)
  with assms(1,2) show ?thesis
    unfolding valid_def by force
qed






lemma transfer_row_id [simp]: "op_id (transfer_row now request i) = i"
  by (simp add: transfer_row_def)



subsection \<open>Daily snapshots\<close>




lemma snapshot_id_capture [simp]: "snapshot_id (capture now b s) = snapshot_id s"
  by (simp add: snapshot_id_def capture_def)

lemma recorded_capture [simp]: "recorded b (capture now b s)"
  by (simp add: recorded_def capture_def)





lemma snapshot_id_new [simp]:
  "snapshot_id (new_snapshot now acct day b d) = (uuid_of acct, currency b, day)"
  by (simp add: snapshot_id_def new_snapshot_def)

lemma recorded_new [simp]: "recorded b (new_snapshot now acct day b d)"
  by (simp add: recorded_def new_snapshot_def)


lemma upserted_balances [simp]: "balances (upserted now acct day b d) = balances d"
  by (simp add: upserted_def)





lemma fold_upserted_balances [simp]:
  "balances (fold (upserted now acct day) bs d) = balances d"
  by (induction bs arbitrary: d) simp_all









subsection \<open>Positive amounts keep the balances non-negative\<close>

text \<open>The checks of \<open>validateBalanceOperation\<close> and \<open>transferBalance\<close> compare the
  amount with the balance; they keep both fields non-negative when the amount is
  positive.\<close>

lemma nonnegative_getOrCreateBalance:
  "valid nonnegative (getOrCreateBalance now acct cur)
     (\<lambda>b d. nonnegative d \<and> 0 \<le> availableBalance b \<and> 0 \<le> reservedBalance b)"
  unfolding getOrCreateBalance_def
proof (rule valid_andThen [where R = "\<lambda>rows d. nonnegative d \<and> set rows \<subseteq> set (balances d)"])
  show "valid nonnegative (query (select_balance acct cur))
      (\<lambda>rows d. nonnegative d \<and> set rows \<subseteq> set (balances d))"
    by (rule valid_query) (auto simp: select_balance_def)
next
  fix rows
  show "valid (\<lambda>d. nonnegative d \<and> set rows \<subseteq> set (balances d))
      (case rows of
         [] \<Rightarrow> andThen (query (insert_balance now acct cur))
                 (\<lambda>insertResult. case insertResult of [] \<Rightarrow> throw RowUndefined
                    | row # _ \<Rightarrow> return row)
       | row # _ \<Rightarrow> return row)
      (\<lambda>b d. nonnegative d \<and> 0 \<le> availableBalance b \<and> 0 \<le> reservedBalance b)"
  proof (cases rows)
    case Nil
    have "valid (\<lambda>d. nonnegative d \<and> set rows \<subseteq> set (balances d))
        (query (insert_balance now acct cur))
        (\<lambda>inserted d. nonnegative d \<and> set inserted \<subseteq> set (balances d))"
      by (rule valid_query)
        (auto simp: insert_balance_def nonnegative_def Let_def split: if_splits)
    then show ?thesis
      unfolding Nil list.case
      by (rule valid_andThen)
        (auto intro!: valid_return valid_throw simp: nonnegative_def split: list.splits)
  next
    case (Cons row rest)
    show ?thesis
      unfolding Cons list.case
      by (rule valid_return) (auto simp: nonnegative_def)
  qed
qed

lemma admitted_validateBalanceOperation:
  "valid P (validateBalanceOperation b t amount) (\<lambda>_ d. P d \<and> admissible b t amount)"
  unfolding validateBalanceOperation_def admissible_def
  by (cases t) (auto intro!: valid_return valid_throw)

lemma round_half_away_nonnegative: "0 \<le> x \<Longrightarrow> 0 \<le> round_half_away x"
  by (simp add: round_half_away_def)

lemma power10_positive: "0 < power10 e"
  by (simp add: power10_def)

lemma round_to_precision_nonnegative: "0 \<le> x \<Longrightarrow> 0 \<le> round_to_precision x"
  by (simp add: round_to_precision_def Let_def round_half_away_nonnegative
      less_imp_le [OF power10_positive])

lemma nonnegative_update_balance:
  assumes "nonnegative d" and "0 \<le> a" and "0 \<le> r"
    and "update_balance a r t now acct cur d = Inr (x, d')"
  shows "nonnegative d'"
  using assms(4)
proof (rule update_balance_cases)
  fix a' r' t'
  assume "numeric_20_8 a = Inr a'" and "numeric_20_8 r = Inr r'"
    and d': "d' = d\<lparr>balances :=
           map (\<lambda>b. if balance_key acct cur b then set_balance a' r' t' now b else b)
             (balances d)\<rparr>"
  then have "a' = round_half_away a" and "r' = round_half_away r"
    by (simp_all add: numeric_20_8_value)
  with assms(2,3) have "0 \<le> a'" and "0 \<le> r'"
    by (simp_all add: round_half_away_nonnegative)
  with assms(1) show ?thesis
    by (auto simp: d' nonnegative_def set_balance_def)
qed

lemma nonnegative_applyBalanceOperation:
  assumes "0 \<le> availableBalance b" and "0 \<le> reservedBalance b"
    and "admissible b t amount" and "0 < amount"
  shows "valid nonnegative (applyBalanceOperation now b t amount) (\<lambda>_. nonnegative)"
proof -
  let ?a = "case t of
        Credit \<Rightarrow> decimal_plus (of_int (availableBalance b)) amount
      | Debit \<Rightarrow> decimal_minus (of_int (availableBalance b)) amount
      | Reserve \<Rightarrow> decimal_minus (of_int (availableBalance b)) amount
      | Release \<Rightarrow> decimal_plus (of_int (availableBalance b)) amount"
  let ?r = "case t of
        Credit \<Rightarrow> of_int (reservedBalance b)
      | Debit \<Rightarrow> of_int (reservedBalance b)
      | Reserve \<Rightarrow> decimal_plus (of_int (reservedBalance b)) amount
      | Release \<Rightarrow> decimal_minus (of_int (reservedBalance b)) amount"
  from assms have "0 \<le> ?a" and "0 \<le> ?r"
    by (cases t; simp add: admissible_def decimal_plus_def decimal_minus_def
        round_to_precision_nonnegative)+
  then show ?thesis
    unfolding applyBalanceOperation_def Let_def
    by (intro keeps_andThen valid_query)
      (auto intro!: valid_return valid_throw elim: nonnegative_update_balance
        split: list.splits)
qed

lemma nonnegative_frame:
  "valid nonnegative (createBalanceOperation now request) (\<lambda>_. nonnegative)"
  "valid nonnegative (createTransferOperation now trequest) (\<lambda>_. nonnegative)"
  "valid nonnegative (completeBalanceOperation now i) (\<lambda>_. nonnegative)"
  "valid nonnegative (snapshot_each now acct date bs) (\<lambda>_. nonnegative)"
proof -
  show "valid nonnegative (createBalanceOperation now request) (\<lambda>_. nonnegative)"
    unfolding createBalanceOperation_def
    by (rule valid_query, drule insert_operation_cases(2)) (auto simp: nonnegative_def)
  show "valid nonnegative (createTransferOperation now trequest) (\<lambda>_. nonnegative)"
    unfolding createTransferOperation_def
    by (rule valid_query, drule insert_operation_cases(2)) (auto simp: nonnegative_def)
  show "valid nonnegative (completeBalanceOperation now i) (\<lambda>_. nonnegative)"
    unfolding completeBalanceOperation_def
    by (rule valid_query) (auto simp: update_operation_completed_def nonnegative_def)
  show "valid nonnegative (snapshot_each now acct date bs) (\<lambda>_. nonnegative)"
    by (induction bs)
      (auto intro!: keeps_andThen valid_query valid_return
        simp: upsert_snapshot_def nonnegative_def split: if_splits)
qed

lemma valid_knowing:
  "(A \<Longrightarrow> B \<Longrightarrow> valid P m Q) \<Longrightarrow> valid (\<lambda>d. P d \<and> A \<and> B) m Q"
  unfolding valid_def by blast

lemma valid_admitted:
  "(A \<Longrightarrow> B \<Longrightarrow> C \<Longrightarrow> valid P m Q) \<Longrightarrow> valid (\<lambda>d. (P d \<and> A \<and> B) \<and> C) m Q"
  unfolding valid_def by blast

lemma nonnegative_updateBalance:
  assumes "nonnegative d" and "0 < req_amount request"
  shows "nonnegative (snd (updateBalance request now budget d))"
  using assms(1) unfolding updateBalance_def Let_def
proof (rule transaction_invariant [rotated])
  let ?t = "req_operationType request" and ?amount = "req_amount request"
  have finish: "valid nonnegative
      (andThen (createBalanceOperation now request) (\<lambda>operationId.
       andThen (applyBalanceOperation now b ?t ?amount) (\<lambda>balance'.
       andThen (completeBalanceOperation now operationId) (\<lambda>_.
       andThen (query sql_COMMIT) (\<lambda>_. return balance')))))
      (\<lambda>_. nonnegative)"
    if "0 \<le> availableBalance b" "0 \<le> reservedBalance b" "admissible b ?t ?amount" for b
    using that assms(2)
    by (intro keeps_andThen nonnegative_frame nonnegative_applyBalanceOperation
        keeps_control keeps_return)
  show "valid nonnegative
     (andThen (query sql_BEGIN) (\<lambda>_.
        if ?amount = 0 then throw AmountCannotBeZero
        else
        andThen (getOrCreateBalance now (req_accountId request) (req_currency request)) (\<lambda>balance.
        andThen (validateBalanceOperation balance ?t ?amount) (\<lambda>_.
        andThen (createBalanceOperation now request) (\<lambda>operationId.
        andThen (applyBalanceOperation now balance ?t ?amount) (\<lambda>balance'.
        andThen (completeBalanceOperation now operationId) (\<lambda>_.
        andThen (query sql_COMMIT) (\<lambda>_.
        return balance'))))))))
     (\<lambda>_. nonnegative)"
    apply (rule keeps_andThen [OF keeps_control(1)])
    apply (rule valid_if [OF valid_throw])
    apply (rule valid_andThen [OF nonnegative_getOrCreateBalance])
    apply (rule valid_andThen [OF admitted_validateBalanceOperation])
    apply (rule valid_admitted)
    apply (rule finish; assumption)
    done
qed

lemma nonnegative_transferBalance:
  assumes "nonnegative d"
  shows "nonnegative (snd (transferBalance request now budget d))"
  using assms unfolding transferBalance_def Let_def
proof (rule transaction_invariant [rotated])
  let ?amount = "tr_amount request"
  have finish: "valid nonnegative
      (andThen (createTransferOperation now request) (\<lambda>transferId.
       andThen (applyBalanceOperation now fb Debit ?amount) (\<lambda>updatedFromBalance.
       andThen (applyBalanceOperation now tb Credit ?amount) (\<lambda>updatedToBalance.
       andThen (completeBalanceOperation now transferId) (\<lambda>_.
       andThen (query sql_COMMIT) (\<lambda>_.
       return (updatedFromBalance, updatedToBalance, transferId)))))))
      (\<lambda>_. nonnegative)"
    if "0 \<le> reservedBalance fb" "0 \<le> availableBalance tb" "0 \<le> reservedBalance tb"
      "0 < ?amount" "\<not> of_int (availableBalance fb) < ?amount" for fb tb
  proof -
    from that have "0 \<le> availableBalance fb"
      by (simp add: not_less)
    moreover from that have "admissible fb Debit ?amount" and "admissible tb Credit ?amount"
      by (simp_all add: admissible_def)
    ultimately show ?thesis
      using that
      by (intro keeps_andThen nonnegative_frame nonnegative_applyBalanceOperation
          keeps_control keeps_return)
  qed
  show "valid nonnegative
     (andThen (query sql_BEGIN) (\<lambda>_.
        if ?amount \<le> 0 then throw TransferAmountMustBePositive
        else
        andThen (getOrCreateBalance now (tr_fromAccountId request) (tr_currency request)) (\<lambda>fromBalance.
        andThen (getOrCreateBalance now (tr_toAccountId request) (tr_currency request)) (\<lambda>toBalance.
        if of_int (availableBalance fromBalance) < ?amount then throw InsufficientBalanceForTransfer
        else
        andThen (createTransferOperation now request) (\<lambda>transferId.
        andThen (applyBalanceOperation now fromBalance Debit ?amount) (\<lambda>updatedFromBalance.
        andThen (applyBalanceOperation now toBalance Credit ?amount) (\<lambda>updatedToBalance.
        andThen (completeBalanceOperation now transferId) (\<lambda>_.
        andThen (query sql_COMMIT) (\<lambda>_.
        return (updatedFromBalance, updatedToBalance, transferId))))))))))
     (\<lambda>_. nonnegative)"
    apply (rule keeps_andThen [OF keeps_control(1)])
    apply (rule valid_if [OF valid_throw])
    apply (rule valid_andThen [OF nonnegative_getOrCreateBalance])
    apply (rule valid_knowing)
    apply (rule valid_andThen [OF nonnegative_getOrCreateBalance])
    apply (rule valid_if [OF valid_throw])
    apply (rule valid_knowing)
    apply (rule finish; simp)
    done
qed

lemma nonnegative_createDailySnapshot:
  "nonnegative d \<Longrightarrow> nonnegative (snd (createDailySnapshot acct date now budget d))"
  unfolding createDailySnapshot_def
  by (erule transaction_invariant [rotated])
    (intro keeps_andThen keeps_control keeps_select nonnegative_frame)

lemma nonnegative_with_positive_amounts:
  "reachable_positive d \<Longrightarrow> nonnegative d"
proof (induction rule: reachable_positive.induct)
  case initial
  show ?case by (simp add: nonnegative_def empty_database_def)
next
  case (update d request now budget)
  from update.IH update.hyps(2) show ?case by (rule nonnegative_updateBalance)
next
  case (transfer d trequest now budget)
  from transfer.IH show ?case by (rule nonnegative_transferBalance)
next
  case (snapshot d acct date now budget)
  from snapshot.IH show ?case by (rule nonnegative_createDailySnapshot)
qed

subsection \<open>Refused debits\<close>

text \<open>Once \<open>validateBalanceOperation\<close> has let a request pass, the rest of
  \<open>updateBalance\<close> can only fail in the database. So a debit of a positive amount, on a
  connection that never fails, is refused with \<open>InsufficientAvailableBalance\<close>, the
  database being left as it was, exactly when the available balance (zero when there is
  no row) is less than the amount.\<close>

lemma raises_return: "raises (return x) E"
  by (simp add: raises_def return_def)

lemma raises_throw: "e \<in> E \<Longrightarrow> raises (throw e) E"
  by (simp add: raises_def throw_def)

lemma raises_andThen: "raises m E \<Longrightarrow> (\<And>x. raises (f x) E) \<Longrightarrow> raises (andThen m f) E"
  unfolding raises_def andThen_def by (fastforce split: prod.splits sum.splits)

lemma raises_query:
  "StorageFault \<in> E \<Longrightarrow> (\<And>d e. stmt d = Inl e \<Longrightarrow> e \<in> E) \<Longrightarrow> raises (query stmt) E"
  unfolding raises_def query_def by (auto simp: Let_def split: if_splits sum.splits prod.splits)

lemma insert_operation_result:
  "insert_operation now acct ty amount cur ref descr meta d = Inl e \<Longrightarrow> e = NumericFieldOverflow"
  by (auto simp: insert_operation_def numeric_20_8_def Let_def split: if_splits)

lemma update_balance_result:
  "update_balance a r t now acct cur d = Inl e \<Longrightarrow> e = NumericFieldOverflow"
  by (auto simp: update_balance_def Let_def split: sum.splits)

lemma raises_write:
  "raises
     (andThen (createBalanceOperation now request) (\<lambda>operationId.
      andThen (applyBalanceOperation now b t amount) (\<lambda>balance'.
      andThen (completeBalanceOperation now operationId) (\<lambda>_.
      andThen (query sql_COMMIT) (\<lambda>_. return balance')))))
     {NumericFieldOverflow, RowUndefined, StorageFault}"
  unfolding createBalanceOperation_def applyBalanceOperation_def completeBalanceOperation_def
    Let_def
  by (intro raises_andThen raises_query raises_return)
    (auto simp: sql_COMMIT_def update_operation_completed_def
      intro!: raises_return raises_throw
      dest: insert_operation_result update_balance_result split: list.splits)

lemmas unbudgeted_run =
  transaction_def andThen_def return_def throw_def query_unbudgeted
  sql_BEGIN_def sql_COMMIT_def sql_ROLLBACK_def
  getOrCreateBalance_def validateBalanceOperation_def
  select_balance_def insert_balance_def

lemma debit_refused_when_short:
  assumes "req_operationType request = Debit" and "0 < req_amount request"
  shows "updateBalance request now None d = (Inl InsufficientAvailableBalance, d) \<longleftrightarrow>
         of_int (available_of (req_accountId request) (req_currency request) d) < req_amount request"
proof -
  let ?store = "\<lambda>b. andThen (createBalanceOperation now request) (\<lambda>operationId.
      andThen (applyBalanceOperation now b Debit (req_amount request)) (\<lambda>balance'.
      andThen (completeBalanceOperation now operationId) (\<lambda>_.
      andThen (query sql_COMMIT) (\<lambda>_. return balance'))))"
  have written: "fst (?store b c) \<noteq> Inl InsufficientAvailableBalance" for b c
    using raises_write [of now request b Debit "req_amount request"]
    by (cases "?store b c") (auto simp: raises_def)
  show ?thesis
  proof (cases "filter (balance_key (req_accountId request) (req_currency request)) (balances d)")
    case Nil
    then have "\<not> (\<exists>b \<in> set (balances d). balance_key (req_accountId request) (req_currency request) b)"
      by (simp add: filter_empty_conv)
    with Nil assms show ?thesis
      by (simp add: updateBalance_def unbudgeted_run Let_def available_of_def getBalance_def)
  next
    case (Cons row rest)
    show ?thesis
    proof (cases "of_int (availableBalance row) < req_amount request")
      case True
      with Cons assms show ?thesis
        by (simp add: updateBalance_def unbudgeted_run Let_def available_of_def getBalance_def)
    next
      case False
      have "fst (updateBalance request now None d) \<noteq> Inl InsufficientAvailableBalance"
        using Cons assms False written [of row "unbudgeted d"]
        by (auto simp: updateBalance_def unbudgeted_run Let_def query_def
            split: sum.splits prod.splits)
      with Cons False show ?thesis
        by (auto simp: available_of_def getBalance_def)
    qed
  qed
qed

subsection \<open>Amounts on the scale of the columns\<close>

text \<open>A whole number of units below \<open>10\<^sup>2\<^sup>0\<close> has at most 20 digits, so \<^verbatim>\<open>plus\<close> and
  \<^verbatim>\<open>minus\<close> leave it as it is, and so does the column; a larger one is still at least
  \<open>10\<^sup>2\<^sup>0\<close> after rounding, and the column refuses it. So when the amounts of the
  requests are whole numbers of units, what is stored is what was computed: the total of
  every row is its available plus its reserved amount, and a debit that succeeds lowers
  the available balance by the amount.\<close>

lemma digits_positive: "0 < digits n"
  by (induction n rule: digits.induct) (subst digits.simps, auto)

lemma digits_bounds:
  "0 < n \<Longrightarrow> 10 ^ nat (digits n - 1) \<le> n \<and> n < 10 ^ nat (digits n)"
proof (induction n rule: digits.induct)
  case (1 n)
  show ?case
  proof (cases "n < 10")
    case True
    with 1(2) show ?thesis by (subst (1 2) digits.simps) simp
  next
    case False
    then have pos: "0 < n div 10" by simp
    from 1(1) [OF False pos]
    have lower: "10 ^ nat (digits (n div 10) - 1) \<le> n div 10"
      and upper: "n div 10 < 10 ^ nat (digits (n div 10))"
      by simp_all
    have d: "digits n = 1 + digits (n div 10)"
      using False by (subst digits.simps) simp
    have k: "nat (digits n - 1) = Suc (nat (digits (n div 10) - 1))"
      "nat (digits n) = Suc (nat (digits (n div 10)))"
      using digits_positive [of "n div 10"] by (simp_all add: d nat_add_distrib)
    from lower have "10 * 10 ^ nat (digits (n div 10) - 1) \<le> 10 * (n div 10)"
      by simp
    also have "\<dots> \<le> n" by simp
    finally have l: "10 ^ nat (digits n - 1) \<le> n"
      by (simp add: k)
    from upper have "n div 10 + 1 \<le> 10 ^ nat (digits (n div 10))"
      by simp
    then have "10 * (n div 10 + 1) \<le> 10 * 10 ^ nat (digits (n div 10))"
      by simp
    moreover have "n < 10 * (n div 10 + 1)"
      by simp
    ultimately have "n < 10 ^ nat (digits n)"
      by (simp add: k)
    with l show ?thesis by simp
  qed
qed

lemma digits_at_most:
  assumes "0 < n" and "n < 10 ^ k"
  shows "digits n \<le> int k"
proof (rule ccontr)
  assume "\<not> digits n \<le> int k"
  then have "k \<le> nat (digits n - 1)" by simp
  then have "(10::int) ^ k \<le> 10 ^ nat (digits n - 1)"
    by (simp add: power_increasing)
  also from assms(1) have "\<dots> \<le> n" by (simp add: digits_bounds)
  finally show False using assms(2) by simp
qed

lemma exponent10_of_int:
  assumes "0 < n"
  shows "exponent10 (of_int n) = digits n - 1"
proof -
  have one: "digits 1 = 1" by (subst digits.simps) simp
  from assms have "(10::int) ^ nat (digits n - 1) \<le> n"
    by (simp add: digits_bounds)
  then have "(of_int (10 ^ nat (digits n - 1)) :: rat) \<le> of_int n"
    by (simp only: of_int_le_iff)
  then have "power10 (digits n - 1) \<le> of_int n"
    using digits_positive [of n] by (simp add: power10_def)
  then show ?thesis
    by (simp add: exponent10_def one Let_def)
qed

lemma round_to_precision_of_int:
  assumes "\<bar>n\<bar> < 100000000000000000000"
  shows "round_to_precision (of_int n) = of_int n"
proof (cases "n = 0")
  case True
  then show ?thesis by (simp add: round_to_precision_def)
next
  case False
  then have pos: "0 < \<bar>n\<bar>" by simp
  from assms have "\<bar>n\<bar> < 10 ^ 20" by simp
  with pos have "digits \<bar>n\<bar> \<le> 20"
    using digits_at_most [of "\<bar>n\<bar>" 20] by simp
  define k where "k = nat (20 - digits \<bar>n\<bar>)"
  have e: "exponent10 \<bar>of_int n\<bar> = digits \<bar>n\<bar> - 1"
    using exponent10_of_int [OF pos] by (simp flip: of_int_abs)
  have q: "power10 (exponent10 \<bar>of_int n\<bar> - 19) = 1 / 10 ^ k"
    using \<open>digits \<bar>n\<bar> \<le> 20\<close>
    by (cases "digits \<bar>n\<bar> = 20") (simp_all add: e power10_def k_def)
  have "(of_int n :: rat) / (1 / 10 ^ k) = of_int (n * 10 ^ k)"
    by simp
  then have "round_half_away (of_int n / (1 / 10 ^ k)) = n * 10 ^ k"
    by (simp only: round_half_away_of_int)
  with False show ?thesis
    by (simp add: round_to_precision_def Let_def q)
qed

lemma round_half_away_lower:
  "of_int c \<le> y \<Longrightarrow> 0 \<le> c \<Longrightarrow> c \<le> round_half_away y"
  unfolding round_half_away_def by (auto simp: le_floor_iff)

lemma round_half_away_upper:
  "y \<le> - of_int c \<Longrightarrow> 0 < c \<Longrightarrow> round_half_away y \<le> - c"
  unfolding round_half_away_def by (auto simp: le_floor_iff)

lemma round_half_away_abs:
  assumes "of_int c \<le> \<bar>y\<bar>" and "0 < c"
  shows "c \<le> \<bar>round_half_away y\<bar>"
proof (cases "0 \<le> y")
  case True
  with assms have "c \<le> round_half_away y"
    by (intro round_half_away_lower) simp_all
  then show ?thesis by simp
next
  case False
  with assms have "round_half_away y \<le> - c"
    by (intro round_half_away_upper) simp_all
  then show ?thesis by simp
qed

lemma round_to_precision_large:
  assumes "100000000000000000000 \<le> \<bar>n\<bar>"
  shows "100000000000000000000 \<le> \<bar>round_half_away (round_to_precision (of_int n))\<bar>"
proof -
  from assms have pos: "0 < \<bar>n\<bar>" and nz: "n \<noteq> 0" by auto
  have "20 < digits \<bar>n\<bar>"
  proof (rule ccontr)
    assume "\<not> 20 < digits \<bar>n\<bar>"
    then have "nat (digits \<bar>n\<bar>) \<le> 20" by simp
    then have "(10::int) ^ nat (digits \<bar>n\<bar>) \<le> 10 ^ 20"
      by (intro power_increasing) simp_all
    moreover from pos have "\<bar>n\<bar> < 10 ^ nat (digits \<bar>n\<bar>)"
      by (simp add: digits_bounds)
    ultimately show False using assms by simp
  qed
  define j where "j = nat (digits \<bar>n\<bar> - 20)"
  have e: "exponent10 \<bar>of_int n\<bar> = digits \<bar>n\<bar> - 1"
    using exponent10_of_int [OF pos] by (simp flip: of_int_abs)
  have q: "power10 (exponent10 \<bar>of_int n\<bar> - 19) = 10 ^ j"
    using \<open>20 < digits \<bar>n\<bar>\<close> by (simp add: e power10_def j_def)
  have digits: "nat (digits \<bar>n\<bar> - 1) = 19 + j"
    using \<open>20 < digits \<bar>n\<bar>\<close> by (simp add: j_def)
  from pos have "(10::int) ^ (19 + j) \<le> \<bar>n\<bar>"
    using digits_bounds [of "\<bar>n\<bar>"] by (simp add: digits)
  then have "(of_int (10 ^ (19 + j)) :: rat) \<le> of_int \<bar>n\<bar>"
    by (simp only: of_int_le_iff)
  then have "(10 ^ 19 :: rat) * 10 ^ j \<le> \<bar>of_int n\<bar>"
    by (simp add: power_add)
  then have "(10 ^ 19 :: rat) \<le> \<bar>of_int n\<bar> / 10 ^ j"
    by (simp add: pos_le_divide_eq)
  then have "(of_int (10 ^ 19) :: rat) \<le> \<bar>of_int n / 10 ^ j\<bar>"
    by simp
  then have k: "10 ^ 19 \<le> \<bar>round_half_away (of_int n / 10 ^ j)\<bar>"
    by (rule round_half_away_abs) simp
  define k where "k = round_half_away (of_int n / 10 ^ j)"
  have "round_to_precision (of_int n) = of_int (k * 10 ^ j)"
    using nz by (simp add: round_to_precision_def Let_def q k_def)
  then have "round_half_away (round_to_precision (of_int n)) = k * 10 ^ j"
    by (simp only: round_half_away_of_int)
  moreover have "(10::int) ^ 19 * 10 ^ 1 \<le> \<bar>k\<bar> * 10 ^ j"
    using k \<open>20 < digits \<bar>n\<bar>\<close>
    by (intro mult_mono power_increasing) (simp_all add: k_def j_def)
  ultimately show ?thesis
    by (simp add: abs_mult)
qed

lemma whole_units_stored:
  assumes "numeric_20_8 (round_to_precision (of_int n)) = Inr v"
  shows "v = n" and "round_to_precision (of_int n) = of_int n"
proof -
  from assms have "\<bar>round_half_away (round_to_precision (of_int n))\<bar> < 100000000000000000000"
    by (simp add: numeric_20_8_def split: if_splits)
  with round_to_precision_large [of n] have "\<bar>n\<bar> < 100000000000000000000"
    by linarith
  then show exact: "round_to_precision (of_int n) = of_int n"
    by (rule round_to_precision_of_int)
  from assms show "v = n"
    by (simp add: exact numeric_20_8_def split: if_splits)
qed

lemma whole_units_sent:
  assumes "numeric_20_8 (of_int n) = Inr v"
  shows "v = n"
  using numeric_20_8_value [OF assms] by simp

lemma decimal_whole_units:
  "decimal_plus (of_int a) (of_int n) = round_to_precision (of_int (a + n))"
  "decimal_minus (of_int a) (of_int n) = round_to_precision (of_int (a - n))"
  by (simp_all add: decimal_plus_def decimal_minus_def)

lemma total_ok_update_balance:
  assumes "total_ok d"
    and "update_balance a r t now acct cur d = Inr (x, d')"
    and "\<And>a' r' t'. numeric_20_8 a = Inr a' \<Longrightarrow> numeric_20_8 r = Inr r' \<Longrightarrow>
           numeric_20_8 t = Inr t' \<Longrightarrow> t' = a' + r'"
  shows "total_ok d'"
  using assms(2)
proof (rule update_balance_cases)
  fix a' r' t'
  assume sent: "numeric_20_8 a = Inr a'" "numeric_20_8 r = Inr r'" "numeric_20_8 t = Inr t'"
    and d': "d' = d\<lparr>balances :=
           map (\<lambda>b. if balance_key acct cur b then set_balance a' r' t' now b else b)
             (balances d)\<rparr>"
  from sent have "t' = a' + r'" by (rule assms(3))
  with assms(1) show ?thesis
    by (auto simp: d' total_ok_def set_balance_def)
qed

lemma total_ok_written:
  assumes "r = of_int r0 \<or> r = round_to_precision (of_int r0)"
  shows "valid total_ok
     (andThen
        (query (update_balance (round_to_precision (of_int a)) r
                  (decimal_plus (round_to_precision (of_int a)) r) now acct cur))
        (\<lambda>result. case result of row # _ \<Rightarrow> return row | [] \<Rightarrow> throw RowUndefined))
     (\<lambda>_. total_ok)"
proof -
  have sum: "t' = a' + r'"
    if sent: "numeric_20_8 (round_to_precision (of_int a)) = Inr a'" "numeric_20_8 r = Inr r'"
      "numeric_20_8 (decimal_plus (round_to_precision (of_int a)) r) = Inr t'"
    for a' r' t'
  proof -
    from sent(1) have a: "a' = a" "round_to_precision (of_int a) = of_int a"
      by (rule whole_units_stored)+
    from assms sent(2) have r: "r' = r0 \<and> r = of_int r0"
      by (auto dest: whole_units_stored whole_units_sent)
    with sent(3) have "numeric_20_8 (round_to_precision (of_int (a + r0))) = Inr t'"
      by (simp add: a decimal_plus_def)
    then have "t' = a + r0"
      by (rule whole_units_stored)
    with a r show ?thesis by simp
  qed
  show ?thesis
    by (intro keeps_andThen valid_query)
      (auto intro!: valid_return valid_throw elim!: total_ok_update_balance intro: sum
        split: list.splits)
qed

lemma total_ok_applyBalanceOperation:
  "valid total_ok (applyBalanceOperation now b t (of_int n)) (\<lambda>_. total_ok)"
proof -
  let ?a = "availableBalance b" and ?r = "reservedBalance b"
  let ?finish = "\<lambda>result. case result of row # _ \<Rightarrow> return row | [] \<Rightarrow> throw RowUndefined"
  let ?store = "\<lambda>a r. andThen
        (query (update_balance (round_to_precision (of_int a)) r
                  (decimal_plus (round_to_precision (of_int a)) r) now (accountId b)
                  (currency b))) ?finish"
  have "applyBalanceOperation now b t (of_int n) =
      (case t of
         Credit \<Rightarrow> ?store (?a + n) (of_int ?r)
       | Debit \<Rightarrow> ?store (?a - n) (of_int ?r)
       | Reserve \<Rightarrow> ?store (?a - n) (round_to_precision (of_int (?r + n)))
       | Release \<Rightarrow> ?store (?a + n) (round_to_precision (of_int (?r - n))))"
    by (cases t) (simp_all add: applyBalanceOperation_def Let_def decimal_whole_units)
  moreover have "valid total_ok (?store a (of_int r)) (\<lambda>_. total_ok)"
    and "valid total_ok (?store a (round_to_precision (of_int r))) (\<lambda>_. total_ok)" for a r
    by (rule total_ok_written [of _ r], rule disjI1, rule refl)
      (rule total_ok_written [of _ r], rule disjI2, rule refl)
  ultimately show ?thesis
    by (cases t) (simp_all only: update_type.case)
qed

lemma total_ok_frame:
  "valid total_ok (getOrCreateBalance now acct cur) (\<lambda>_. total_ok)"
  "valid total_ok (createBalanceOperation now request) (\<lambda>_. total_ok)"
  "valid total_ok (createTransferOperation now trequest) (\<lambda>_. total_ok)"
  "valid total_ok (completeBalanceOperation now i) (\<lambda>_. total_ok)"
  "valid total_ok (snapshot_each now acct date bs) (\<lambda>_. total_ok)"
proof -
  show "valid total_ok (getOrCreateBalance now acct cur) (\<lambda>_. total_ok)"
    unfolding getOrCreateBalance_def
    by (auto intro!: keeps_andThen keeps_select valid_query valid_return valid_throw
        simp: insert_balance_def total_ok_def Let_def split: list.splits if_splits)
  show "valid total_ok (createBalanceOperation now request) (\<lambda>_. total_ok)"
    unfolding createBalanceOperation_def
    by (rule valid_query, drule insert_operation_cases(2)) (auto simp: total_ok_def)
  show "valid total_ok (createTransferOperation now trequest) (\<lambda>_. total_ok)"
    unfolding createTransferOperation_def
    by (rule valid_query, drule insert_operation_cases(2)) (auto simp: total_ok_def)
  show "valid total_ok (completeBalanceOperation now i) (\<lambda>_. total_ok)"
    unfolding completeBalanceOperation_def
    by (rule valid_query) (auto simp: update_operation_completed_def total_ok_def)
  show "valid total_ok (snapshot_each now acct date bs) (\<lambda>_. total_ok)"
    by (induction bs)
      (auto intro!: keeps_andThen valid_query valid_return
        simp: upsert_snapshot_def total_ok_def split: if_splits)
qed

lemmas total_ok_steps =
  keeps_andThen keeps_control keeps_select keeps_validate valid_throw keeps_return
  total_ok_frame total_ok_applyBalanceOperation

lemma total_kept_on_scale: "reachable_on_scale d \<Longrightarrow> total_ok d"
proof (induction rule: reachable_on_scale.induct)
  case initial
  show ?case by (simp add: total_ok_def empty_database_def)
next
  case (update d request n now budget)
  from update.IH show ?case
    unfolding updateBalance_def Let_def update.hyps(2)
    by (rule transaction_invariant [rotated]) (auto intro!: total_ok_steps)
next
  case (transfer d trequest n now budget)
  from transfer.IH show ?case
    unfolding transferBalance_def Let_def transfer.hyps(2)
    by (rule transaction_invariant [rotated]) (auto intro!: total_ok_steps)
next
  case (snapshot d acct date now budget)
  from snapshot.IH show ?case
    unfolding createDailySnapshot_def
    by (rule transaction_invariant [rotated]) (auto intro!: total_ok_steps)
qed

lemma filter_key_overwrite:
  "filter (balance_key acct cur)
     (map (\<lambda>b. if balance_key acct cur b then set_balance a r t now b else b) xs) =
   map (set_balance a r t now) (filter (balance_key acct cur) xs)"
  by (induction xs) simp_all

lemma valid_knowing_that: "(A \<Longrightarrow> valid (\<lambda>_. True) m Q) \<Longrightarrow> valid (\<lambda>_. A) m Q"
  unfolding valid_def by blast

lemma valid_constant: "valid (\<lambda>_. A) m (\<lambda>_ _. A)"
  unfolding valid_def by blast

lemma getOrCreateBalance_available:
  "valid (\<lambda>x. x = d) (getOrCreateBalance now acct cur)
     (\<lambda>b _. availableBalance b = available_of acct cur d)"
proof (cases "filter (balance_key acct cur) (balances d)")
  case Nil
  then have zero: "available_of acct cur d = 0"
    by (simp add: available_of_def getBalance_def)
  have inserted: "valid (\<lambda>_. True) (query (insert_balance now acct cur))
      (\<lambda>rows _. \<forall>b \<in> set rows. availableBalance b = 0)"
    by (rule valid_query) (auto simp: insert_balance_def Let_def split: if_splits)
  have created: "valid (\<lambda>_. True)
      (andThen (query (insert_balance now acct cur))
         (\<lambda>insertResult. case insertResult of row # _ \<Rightarrow> return row | [] \<Rightarrow> throw RowUndefined))
      (\<lambda>b _. availableBalance b = 0)"
    by (rule valid_andThen [OF inserted])
      (auto intro!: valid_return valid_throw split: list.splits)
  have selected: "valid (\<lambda>x. x = d) (query (select_balance acct cur)) (\<lambda>rows _. rows = [])"
    by (rule valid_query) (simp add: select_balance_def Nil)
  show ?thesis
    unfolding getOrCreateBalance_def zero
    by (rule valid_andThen [OF selected], rule valid_knowing_that) (simp add: created)
next
  case (Cons row rest)
  then have found: "available_of acct cur d = availableBalance row"
    by (simp add: available_of_def getBalance_def)
  have selected: "valid (\<lambda>x. x = d) (query (select_balance acct cur))
      (\<lambda>rows _. rows = row # rest)"
    by (rule valid_query) (simp add: select_balance_def Cons)
  show ?thesis
    unfolding getOrCreateBalance_def found
    by (rule valid_andThen [OF selected], rule valid_knowing_that) (simp add: valid_return)
qed

lemma applyBalanceOperation_debit_on_scale:
  "valid P (applyBalanceOperation now b Debit (of_int n))
     (\<lambda>b' _. availableBalance b' = availableBalance b - n)"
proof -
  have "availableBalance row = availableBalance b - n"
    if "update_balance (round_to_precision (of_int (availableBalance b - n))) r t now acct cur d =
        Inr (row # rest, d')" for r t acct cur d d' row rest
    using that
  proof (rule update_balance_cases)
    fix a' r' t'
    assume "numeric_20_8 (round_to_precision (of_int (availableBalance b - n))) = Inr a'"
    then have "a' = availableBalance b - n"
      by (rule whole_units_stored)
    moreover assume "d' = d\<lparr>balances :=
           map (\<lambda>b. if balance_key acct cur b then set_balance a' r' t' now b else b)
             (balances d)\<rparr>"
      and "row # rest = filter (balance_key acct cur) (balances d')"
    then have "row # rest = map (set_balance a' r' t' now) (filter (balance_key acct cur) (balances d))"
      by (simp add: filter_key_overwrite)
    then have "row \<in> set (map (set_balance a' r' t' now) (filter (balance_key acct cur) (balances d)))"
      by (metis list.set_intros(1))
    ultimately show ?thesis
      by (auto simp: set_balance_def)
  qed
  then show ?thesis
    unfolding applyBalanceOperation_def Let_def update_type.case decimal_whole_units
    by (intro valid_andThen [OF valid_query [where Q = "\<lambda>rows _. \<forall>row rest. rows = row # rest \<longrightarrow> availableBalance row = availableBalance b - n"]])
      (auto intro!: valid_return valid_throw split: list.splits)
qed

lemma valid_result:
  "valid (\<lambda>_. R x) (andThen m (\<lambda>_. andThen m' (\<lambda>_. return x))) (\<lambda>r _. R r)"
  unfolding valid_def andThen_def return_def
  by (auto split: prod.splits sum.splits)

lemma debit_on_scale:
  assumes "req_operationType request = Debit" and "req_amount request = of_int n"
    and "updateBalance request now budget d = (Inr b, d')"
  shows "availableBalance b =
           available_of (req_accountId request) (req_currency request) d - n"
proof -
  let ?available = "available_of (req_accountId request) (req_currency request) d"
  have written: "valid (\<lambda>_. availableBalance balance = ?available)
      (andThen (applyBalanceOperation now balance Debit (of_int n)) (\<lambda>balance'.
       andThen (completeBalanceOperation now operationId) (\<lambda>_.
       andThen (query sql_COMMIT) (\<lambda>_.
       return balance'))))
      (\<lambda>b _. availableBalance b = ?available - n)" for balance operationId
  proof (rule valid_knowing_that)
    assume "availableBalance balance = ?available"
    then show "valid (\<lambda>_. True)
      (andThen (applyBalanceOperation now balance Debit (of_int n)) (\<lambda>balance'.
       andThen (completeBalanceOperation now operationId) (\<lambda>_.
       andThen (query sql_COMMIT) (\<lambda>_.
       return balance'))))
      (\<lambda>b _. availableBalance b = ?available - n)"
      using valid_andThen [OF applyBalanceOperation_debit_on_scale [of "\<lambda>_. True" now balance n]
          valid_result [of "\<lambda>r. availableBalance r = availableBalance balance - n"]]
      by simp
  qed
  have "valid (\<lambda>x. x = d)
     (andThen (query sql_BEGIN) (\<lambda>_.
        if (of_int n :: rat) = 0 then throw AmountCannotBeZero
        else
        andThen (getOrCreateBalance now (req_accountId request) (req_currency request)) (\<lambda>balance.
        andThen (validateBalanceOperation balance Debit (of_int n)) (\<lambda>_.
        andThen (createBalanceOperation now request) (\<lambda>operationId.
        andThen (applyBalanceOperation now balance Debit (of_int n)) (\<lambda>balance'.
        andThen (completeBalanceOperation now operationId) (\<lambda>_.
        andThen (query sql_COMMIT) (\<lambda>_.
        return balance'))))))))
     (\<lambda>b _. availableBalance b = ?available - n)"
    apply (rule valid_andThen [OF keeps_control(1)])
    apply (rule valid_if [OF valid_throw])
    apply (rule valid_andThen [OF getOrCreateBalance_available])
    apply (rule valid_andThen [OF keeps_validate])
    apply (rule valid_andThen [OF valid_constant])
    apply (rule written)
    done
  from transaction_valid [OF this refl assms(3) [unfolded updateBalance_def Let_def assms(1,2)]]
  show ?thesis .
qed

section \<open>The claims\<close>

subsection \<open>The total is available plus reserved\<close>

text \<open>
  C1 does not hold of the code: a persisted balance need not have its total equal to
  available plus reserved. \<open>applyBalanceOperation\<close> does compute the total as the sum
  of the other two, but it sends the three values to be stored separately, and each
  column rounds its own value to 8 fractional digits; no operation checks how fine the
  amount of a request is. On a balance of 100.00000000 available and nothing reserved,
  \<open>reserveBalance\<close> with the amount 0.000000005 succeeds and commits available
  100.00000000 (from 99.999999995), reserved 0.00000001 (from 0.000000005) and total
  100.00000000: the stored total is 0.00000001 less than available plus reserved. The
  state is reached by two calls of public operations on the empty database. When the
  amount of every request has at most 8 fractional digits the identity is kept
  (\<open>total_kept_on_scale\<close>): the check of the amount's precision is all that is
  missing.
\<close>

theorem reserve_below_scale_breaks_total:
  "reachable half_unit_reserved \<and>
   map (\<lambda>b. (availableBalance b, reservedBalance b, totalBalance b))
     (balances (funded ''A'' 10000000000 empty_database)) = [(10000000000, 0, 10000000000)] \<and>
   \<not> isl (fst (reserveBalance ''A'' (1 / 2) ''USD'' ''ref-3'' ''hold'' None 2 None
                  (funded ''A'' 10000000000 empty_database))) \<and>
   map (\<lambda>b. (availableBalance b, reservedBalance b, totalBalance b))
     (balances half_unit_reserved) = [(10000000000, 1, 10000000000)] \<and>
   map (\<lambda>b. availableBalance b + reservedBalance b - totalBalance b)
     (balances half_unit_reserved) = [1]"
proof -
  have "reachable half_unit_reserved"
    unfolding half_unit_reserved_def reserveBalance_def funded_def by (intro reachable.intros)
  moreover have "map (\<lambda>b. (availableBalance b, reservedBalance b, totalBalance b))
     (balances (funded ''A'' 10000000000 empty_database)) = [(10000000000, 0, 10000000000)]"
    by code_simp
  moreover have "\<not> isl (fst (reserveBalance ''A'' (1 / 2) ''USD'' ''ref-3'' ''hold'' None 2 None
                  (funded ''A'' 10000000000 empty_database)))"
    by code_simp
  moreover have "map (\<lambda>b. (availableBalance b, reservedBalance b, totalBalance b))
     (balances half_unit_reserved) = [(10000000000, 1, 10000000000)]"
    by code_simp
  moreover have "map (\<lambda>b. availableBalance b + reservedBalance b - totalBalance b)
     (balances half_unit_reserved) = [1]"
    by code_simp
  ultimately show ?thesis by simp
qed

subsection \<open>Non-negative balances\<close>

text \<open>
  C2 does not hold of the code. \<open>updateBalance\<close> refuses a zero amount only, so a negative
  amount passes: on the empty database a credit of \<open>-5.00000000\<close> leaves an available
  balance of \<open>-5.00000000\<close>, and a reserve of \<open>-5.00000000\<close> leaves a reserved balance of
  \<open>-5.00000000\<close>. Both states are reachable by one call of a public operation. When
  every \<open>updateBalance\<close> request has a positive amount the two fields do stay
  non-negative (\<open>nonnegative_with_positive_amounts\<close>): the sign check is all that is
  missing.
\<close>

theorem negative_amount_overdraws:
  "reachable (snd (updateBalance (usd_request ''A'' Credit (- 500000000)) 1 None empty_database)) \<and>
   map (\<lambda>b. (availableBalance b, reservedBalance b))
     (balances (snd (updateBalance (usd_request ''A'' Credit (- 500000000)) 1 None
                       empty_database))) = [(- 500000000, 0)] \<and>
   reachable (snd (updateBalance (usd_request ''A'' Reserve (- 500000000)) 1 None empty_database)) \<and>
   map (\<lambda>b. (availableBalance b, reservedBalance b))
     (balances (snd (updateBalance (usd_request ''A'' Reserve (- 500000000)) 1 None
                       empty_database))) = [(500000000, - 500000000)]"
proof -
  have "reachable (snd (updateBalance request 1 None empty_database))" for request
    by (intro reachable.intros)
  moreover have "map (\<lambda>b. (availableBalance b, reservedBalance b))
     (balances (snd (updateBalance (usd_request ''A'' Credit (- 500000000)) 1 None
                       empty_database))) = [(- 500000000, 0)]"
    by code_simp
  moreover have "map (\<lambda>b. (availableBalance b, reservedBalance b))
     (balances (snd (updateBalance (usd_request ''A'' Reserve (- 500000000)) 1 None
                       empty_database))) = [(500000000, - 500000000)]"
    by code_simp
  ultimately show ?thesis by simp
qed

subsection \<open>Amounts that are not positive\<close>

text \<open>
  C3 does not hold of the code. A request with amount zero is refused with
  \<open>AmountCannotBeZero\<close> and changes nothing, but a request with a negative amount is
  carried out: a credit of \<open>-5.00000000\<close> on an available balance of 100.00000000
  succeeds and leaves 95.00000000.
\<close>

theorem negative_amount_accepted:
  "\<not> isl (fst (updateBalance (usd_request ''A'' Credit (- 500000000)) 2 None
                  (funded ''A'' 10000000000 empty_database))) \<and>
   available_of ''A'' ''USD'' (funded ''A'' 10000000000 empty_database) = 10000000000 \<and>
   available_of ''A'' ''USD''
     (snd (updateBalance (usd_request ''A'' Credit (- 500000000)) 2 None
            (funded ''A'' 10000000000 empty_database))) = 9500000000 \<and>
   updateBalance (usd_request ''A'' Credit 0) 2 None (funded ''A'' 10000000000 empty_database) =
     (Inl AmountCannotBeZero, funded ''A'' 10000000000 empty_database)"
  by code_simp

subsection \<open>Debits and insufficient funds\<close>

text \<open>
  C4 does not hold of the code for every positive amount: a debit that succeeds need not
  lower the available balance by the amount. Nothing checks how fine the amount is, and
  the columns round what they are sent. On an available balance of 100.00000000 a debit
  of 0.000000004 passes the validation, succeeds, commits an available balance of
  100.00000000 (from 99.999999996) and a completed debit row of amount 0.00000000: the
  balance has not decreased. The refusal is as claimed: \<open>validateBalanceOperation\<close>
  throws \<open>InsufficientAvailableBalance\<close>, of kind \<open>InsufficientFunds\<close>, exactly when
  the available balance is less than the amount, and the rollback leaves the database as
  it was (\<open>debit_refused_when_short\<close>); and a debit of an amount of at most 8
  fractional digits that succeeds does lower the available balance by the amount
  (\<open>debit_on_scale\<close>).
\<close>

theorem debit_below_scale_debits_nothing:
  "available_of ''A'' ''USD'' (funded ''A'' 10000000000 empty_database) = 10000000000 \<and>
   \<not> isl (fst (updateBalance (usd_request ''A'' Debit (2 / 5)) 2 None
                  (funded ''A'' 10000000000 empty_database))) \<and>
   available_of ''A'' ''USD''
     (snd (updateBalance (usd_request ''A'' Debit (2 / 5)) 2 None
            (funded ''A'' 10000000000 empty_database))) = 10000000000 \<and>
   map (\<lambda>r. (op_operationType r, op_amount r, op_status r))
     (balance_operations
       (snd (updateBalance (usd_request ''A'' Debit (2 / 5)) 2 None
              (funded ''A'' 10000000000 empty_database)))) =
     [(Update Credit, 10000000000, Completed), (Update Debit, 0, Completed)]"
  by code_simp

subsection \<open>Transfers are atomic\<close>

text \<open>
  C5 does not hold of the code: a transfer that succeeds need not lower the source by
  the amount. \<open>transferBalance\<close> reads both balances before it writes either and never
  compares the two accounts, so when they are the same account the credit leg overwrites
  the debit leg: with 50 available, a transfer of 20 from A to A succeeds and leaves A
  with 70, not 30. The same happens when the two ids are different strings that spell
  one \<^verbatim>\<open>UUID\<close>. And an amount finer than the columns is rounded in each leg on its own:
  of 50 and 10, a transfer of 0.000000005 leaves 50.00000000 and 10.00000001. What
  does hold is the rollback: a transfer that throws leaves the database as it was, as
  is shown with C10.
\<close>

theorem self_transfer_raises_source:
  "\<not> isl (fst (transferBalance (usd_transfer ''A'' ''A'' 2000000000) 2 None
                  (funded ''A'' 5000000000 empty_database))) \<and>
   available_of ''A'' ''USD'' (funded ''A'' 5000000000 empty_database) = 5000000000 \<and>
   available_of ''A'' ''USD''
     (snd (transferBalance (usd_transfer ''A'' ''A'' 2000000000) 2 None
            (funded ''A'' 5000000000 empty_database))) = 7000000000 \<and>
   account_hyphenated \<noteq> account_upper_case \<and>
   \<not> isl (fst (transferBalance
                  (usd_transfer account_hyphenated account_upper_case 2000000000) 2 None
                  (funded account_hyphenated 5000000000 empty_database))) \<and>
   map availableBalance (balances (funded account_hyphenated 5000000000 empty_database)) =
     [5000000000] \<and>
   map availableBalance
     (balances (snd (transferBalance
                       (usd_transfer account_hyphenated account_upper_case 2000000000) 2 None
                       (funded account_hyphenated 5000000000 empty_database)))) =
     [7000000000] \<and>
   map (\<lambda>b. (accountId b, availableBalance b)) (balances two_accounts) =
     [(''A'', 5000000000), (''B'', 1000000000)] \<and>
   \<not> isl (fst (transferBalance (usd_transfer ''A'' ''B'' (1 / 2)) 2 None two_accounts)) \<and>
   map (\<lambda>b. (accountId b, availableBalance b))
     (balances (snd (transferBalance (usd_transfer ''A'' ''B'' (1 / 2)) 2 None two_accounts))) =
     [(''A'', 5000000000), (''B'', 1000000001)]"
  by code_simp

subsection \<open>Transfers from an account to itself\<close>

text \<open>
  C6 does not hold of the code. \<open>transferBalance\<close> never compares the two account ids:
  a transfer of 50 from A to A, with 50 available, succeeds, appends an operation row, and
  leaves A with 100, since the credit leg adds to the balance as it was read before the
  debit leg.
\<close>

theorem self_transfer_accepted:
  "\<not> isl (fst (transferBalance (usd_transfer ''A'' ''A'' 5000000000) 2 None
                  (funded ''A'' 5000000000 empty_database))) \<and>
   map (\<lambda>b. (accountId b, availableBalance b, totalBalance b))
     (balances (funded ''A'' 5000000000 empty_database)) = [(''A'', 5000000000, 5000000000)] \<and>
   map (\<lambda>b. (accountId b, availableBalance b, totalBalance b))
     (balances (snd (transferBalance (usd_transfer ''A'' ''A'' 5000000000) 2 None
                       (funded ''A'' 5000000000 empty_database)))) =
     [(''A'', 10000000000, 10000000000)] \<and>
   length (balance_operations (snd (transferBalance (usd_transfer ''A'' ''A'' 5000000000) 2 None
                                      (funded ''A'' 5000000000 empty_database)))) =
     Suc (length (balance_operations (funded ''A'' 5000000000 empty_database)))"
  by code_simp

subsection \<open>The operation record of a transfer\<close>




subsection \<open>Reserve and release\<close>

text \<open>
  C8 does not hold of the code for every positive amount: reserving \<open>x\<close> and then
  releasing \<open>x\<close> need not restore the balance. An amount finer than the columns is
  rounded in each column on its own. From available 100.00000000 and reserved 0, the
  reserve of 0.000000005 succeeds and commits 100.00000000 available and 0.00000001
  reserved; the release of 0.000000005 then succeeds and commits 100.00000001 available
  and 0.00000001 reserved, with a total of 100.00000001: the two calls have made
  0.00000002 out of nothing. Nor does the release always go through: a reserved balance
  can be negative (C2), and from available 5 and reserved -5 a reserve of 3 succeeds,
  leaving 2 and -2, and the release of 3 is refused with
  \<open>InsufficientReservedBalance\<close>.
\<close>

theorem reserve_release_below_scale:
  "map (\<lambda>b. (availableBalance b, reservedBalance b, totalBalance b))
     (balances (funded ''A'' 10000000000 empty_database)) = [(10000000000, 0, 10000000000)] \<and>
   \<not> isl (fst (reserveBalance ''A'' (1 / 2) ''USD'' ''ref-3'' ''hold'' None 2 None
                  (funded ''A'' 10000000000 empty_database))) \<and>
   \<not> isl (fst (releaseReservedBalance ''A'' (1 / 2) ''USD'' ''ref-4'' ''free'' None 3 None
                  half_unit_reserved)) \<and>
   map (\<lambda>b. (availableBalance b, reservedBalance b, totalBalance b))
     (balances (snd (releaseReservedBalance ''A'' (1 / 2) ''USD'' ''ref-4'' ''free'' None 3 None
                       half_unit_reserved))) = [(10000000001, 1, 10000000001)] \<and>
   map (\<lambda>b. (availableBalance b, reservedBalance b)) (balances overdrawn_reserve) =
     [(500000000, - 500000000)] \<and>
   \<not> isl (fst (reserveBalance ''A'' 300000000 ''USD'' ''ref-3'' ''hold'' None 2 None
                  overdrawn_reserve)) \<and>
   map (\<lambda>b. (availableBalance b, reservedBalance b))
     (balances (snd (reserveBalance ''A'' 300000000 ''USD'' ''ref-3'' ''hold'' None 2 None
                       overdrawn_reserve))) = [(200000000, - 200000000)] \<and>
   fst (releaseReservedBalance ''A'' 300000000 ''USD'' ''ref-4'' ''free'' None 3 None
          (snd (reserveBalance ''A'' 300000000 ''USD'' ''ref-3'' ''hold'' None 2 None
                 overdrawn_reserve))) = Inl InsufficientReservedBalance"
  by code_simp

subsection \<open>Daily snapshots\<close>



subsection \<open>Committed operations are completed\<close>

text \<open>
  C10. In every reachable database each operation row has status \<open>Completed\<close> and a
  \<open>processedAt\<close> time, so no committed row is pending, failed or cancelled; and a
  call of \<open>updateBalance\<close> or \<open>transferBalance\<close> that throws, whether on validation or
  on a storage fault, leaves the database as it was, the pending row included.
\<close>

theorem committed_operations_completed:
  assumes "reachable d"
  shows
    "(\<forall>r \<in> set (balance_operations d). op_status r = Completed \<and> op_processedAt r \<noteq> None) \<and>
     (\<forall>e. fst (updateBalance request now budget d) = Inl e \<longrightarrow>
        snd (updateBalance request now budget d) = d) \<and>
     (\<forall>e. fst (transferBalance trequest now budget d) = Inl e \<longrightarrow>
        snd (transferBalance trequest now budget d) = d)"
proof (intro conjI allI impI)
  from assms have "all_completed d" by (rule reachable_completed)
  then show "\<forall>r \<in> set (balance_operations d). op_status r = Completed \<and> op_processedAt r \<noteq> None"
    by (simp add: all_completed_def completed_def)
next
  fix e
  assume "fst (updateBalance request now budget d) = Inl e"
  then show "snd (updateBalance request now budget d) = d"
    unfolding updateBalance_def by (rule transaction_failure)
next
  fix e
  assume "fst (transferBalance trequest now budget d) = Inl e"
  then show "snd (transferBalance trequest now budget d) = d"
    unfolding transferBalance_def by (rule transaction_failure)
qed

theorem committed_operations_completed_witness:
  "reachable settled_ledger \<and>
   map (\<lambda>r. (op_operationType r, op_status r, op_processedAt r)) (balance_operations settled_ledger) =
     [(Update Credit, Completed, Some 1), (Update Credit, Completed, Some 1),
      (Transfer, Completed, Some 2)] \<and>
   list_all (\<lambda>r. op_status r = Completed \<and> op_processedAt r \<noteq> None)
     (balance_operations settled_ledger) \<and>
   fst (updateBalance (usd_request ''A'' Debit 15000000000) 3 None settled_ledger) =
     Inl InsufficientAvailableBalance \<and>
   snd (updateBalance (usd_request ''A'' Debit 15000000000) 3 None settled_ledger) =
     settled_ledger \<and>
   fst (transferBalance (usd_transfer ''A'' ''B'' 1000000000) 3 (Some 7) settled_ledger) =
     Inl StorageFault \<and>
   snd (transferBalance (usd_transfer ''A'' ''B'' 1000000000) 3 (Some 7) settled_ledger) =
     settled_ledger"
proof -
  have r: "reachable settled_ledger"
    unfolding settled_ledger_def two_accounts_def funded_def by (intro reachable.intros)
  have rows: "map (\<lambda>r. (op_operationType r, op_status r, op_processedAt r))
      (balance_operations settled_ledger) =
     [(Update Credit, Completed, Some 1), (Update Credit, Completed, Some 1),
      (Transfer, Completed, Some 2)]"
    by code_simp
  have rejected: "fst (updateBalance (usd_request ''A'' Debit 15000000000) 3 None settled_ledger) =
      Inl InsufficientAvailableBalance"
    by code_simp
  have fault: "fst (transferBalance (usd_transfer ''A'' ''B'' 1000000000) 3 (Some 7) settled_ledger) =
      Inl StorageFault"
    by code_simp
  note facts = committed_operations_completed [OF r,
      of "usd_request ''A'' Debit 15000000000" 3 None "usd_transfer ''A'' ''B'' 1000000000"]
    committed_operations_completed [OF r,
      of "usd_request ''A'' Debit 15000000000" 3 "Some 7" "usd_transfer ''A'' ''B'' 1000000000"]
  from facts(1) have "list_all (\<lambda>r. op_status r = Completed \<and> op_processedAt r \<noteq> None)
     (balance_operations settled_ledger)"
    by (simp add: list_all_iff)
  moreover from facts(1) rejected
  have "snd (updateBalance (usd_request ''A'' Debit 15000000000) 3 None settled_ledger) =
     settled_ledger"
    by blast
  moreover from facts(2) fault
  have "snd (transferBalance (usd_transfer ''A'' ''B'' 1000000000) 3 (Some 7) settled_ledger) =
     settled_ledger"
    by blast
  ultimately show ?thesis
    using r rows rejected fault by simp
qed

end
